theory Spec2Isabelle
  imports Complex_Main "HOL-Library.Word"
begin

unbundle bit_operations_syntax

section \<open>Machine types and result codes\<close>

type_synonym u8 = "8 word"
type_synonym u16 = "16 word"
type_synonym u32 = "32 word"

text \<open>
  Result codes of \<^verbatim>\<open>include/bno085.h\<close>. The driver functions return a C \<^verbatim>\<open>int\<close>:
  a negative error code, zero, or a positive length or report id.
\<close>

definition BNO085_OK :: int where "BNO085_OK = 0"
definition BNO085_ERR_I2C :: int where "BNO085_ERR_I2C = - 1"
definition BNO085_ERR_INVALID_DATA :: int where "BNO085_ERR_INVALID_DATA = - 4"
definition BNO085_ERR_BUFFER_OVERFLOW :: int where "BNO085_ERR_BUFFER_OVERFLOW = - 6"

definition SHTP_HEADER_SIZE :: u16 where "SHTP_HEADER_SIZE = 4"
definition SHTP_CHANNEL_REPORTS :: u8 where "SHTP_CHANNEL_REPORTS = 3"

text \<open>
  A C call either returns or runs into undefined behaviour (an array index or a
  \<^verbatim>\<open>memcpy\<close> outside its object). The second outcome is a value of the model.
\<close>

datatype 'a outcome = Undefined | Returns 'a

section \<open>The device handle (\<^verbatim>\<open>bno085_t\<close>)\<close>

text \<open>
  \<^verbatim>\<open>sequence\<close> is \<^verbatim>\<open>uint8_t[6]\<close> and \<^verbatim>\<open>rx_buffer\<close> is \<^verbatim>\<open>uint8_t[512]\<close>; the lists
  carry these lengths as the invariant \<open>bno085_wf\<close>.
\<close>

record bno085_t =
  i2c_addr :: u8
  int_pin :: u8
  rst_pin :: u8
  initialized :: bool
  sequence :: "u8 list"
  sw_version_major :: u8
  sw_version_minor :: u8
  sw_version_patch :: u16
  sw_part_number :: u32
  sw_build_number :: u32
  rx_buffer :: "u8 list"
  rx_len :: u16
  enabled_reports :: u32

definition bno085_wf :: "bno085_t \<Rightarrow> bool" where
  "bno085_wf dev \<longleftrightarrow> length (sequence dev) = 6 \<and> length (rx_buffer dev) = 512"

text \<open>\<^verbatim>\<open>memcpy(&buf[off], src, length src)\<close> into a buffer that has room for it.\<close>

definition buf_write :: "'a list \<Rightarrow> nat \<Rightarrow> 'a list \<Rightarrow> 'a list" where
  "buf_write buf off src = take off buf @ src @ drop (off + length src) buf"

section \<open>SHTP packet codec (\<^verbatim>\<open>src/bno085.c\<close>)\<close>

text \<open>
  \<^verbatim>\<open>bno085_send_packet\<close>. The I2C master \<^verbatim>\<open>twim_write\<close> drives memory-mapped registers;
  its return value is a parameter of the model (address, bytes handed over, stop flag).
  \<open>tx0\<close> is the indeterminate initial content of the 256-byte stack buffer. The result
  holds the updated handle, the return code and the bytes handed to \<^verbatim>\<open>twim_write\<close>
  (\<open>None\<close> when it is not called).
\<close>

definition bno085_send_packet ::
  "(u8 \<Rightarrow> u8 list \<Rightarrow> bool \<Rightarrow> int) \<Rightarrow> u8 list \<Rightarrow> bno085_t \<Rightarrow> u8 \<Rightarrow> u8 list option \<Rightarrow> u16
     \<Rightarrow> (bno085_t \<times> int \<times> u8 list option) outcome" where
  "bno085_send_packet twim_write tx0 dev channel data len =
     (let packet_len = len + SHTP_HEADER_SIZE in
      if packet_len > 256 then Returns (dev, BNO085_ERR_BUFFER_OVERFLOW, None)
      else if \<not> unat channel < 6 then Undefined
      else
        let seq = sequence dev ! unat channel;
            dev' = dev\<lparr>sequence := (sequence dev)[unat channel := seq + 1]\<rparr>;
            hdr = [ucast (packet_len AND 0xFF), ucast (drop_bit 8 packet_len AND 0x7F),
                   channel, seq];
            tx1 = buf_write tx0 0 hdr
        in case (if len > 0 then data else None) of
             Some bytes \<Rightarrow>
               if 4 + unat len > 256 \<or> length bytes < unat len then Undefined
               else
                 let tx_buffer = buf_write tx1 4 (take (unat len) bytes);
                     wire = take (unat packet_len) tx_buffer;
                     result = twim_write (i2c_addr dev') wire True
                 in Returns (dev', if result < 0 then BNO085_ERR_I2C else BNO085_OK, Some wire)
           | None \<Rightarrow>
               let wire = take (unat packet_len) tx1;
                   result = twim_write (i2c_addr dev') wire True
               in Returns (dev', if result < 0 then BNO085_ERR_I2C else BNO085_OK, Some wire))"

text \<open>
  \<^verbatim>\<open>bno085_receive_packet\<close>. \<^verbatim>\<open>twim_read\<close> is the transport: from the bus state, the
  address and the number of bytes asked for it gives the return value, the bytes the
  transfer left in the destination, and the next bus state. The \<^verbatim>\<open>timeout_ms\<close> argument
  is unused by the source.
\<close>

definition bno085_receive_packet ::
  "('hw \<Rightarrow> u8 \<Rightarrow> nat \<Rightarrow> int \<times> u8 list \<times> 'hw) \<Rightarrow> 'hw \<Rightarrow> bno085_t \<Rightarrow> bno085_t \<times> int \<times> 'hw" where
  "bno085_receive_packet twim_read hw dev =
     (case twim_read hw (i2c_addr dev) 4 of (result, header, hw1) \<Rightarrow>
        if result < 0 then (dev, BNO085_ERR_I2C, hw1)
        else
          let packet_len = (ucast (header ! 0) OR push_bit 8 (ucast (header ! 1 AND 0x7F))) :: u16
          in if packet_len = 0 \<or> packet_len = 0x7FFF then (dev, 0, hw1)
             else if packet_len < SHTP_HEADER_SIZE then (dev, BNO085_ERR_INVALID_DATA, hw1)
             else if packet_len > 512 then (dev, BNO085_ERR_BUFFER_OVERFLOW, hw1)
             else
               let dev1 = dev\<lparr>rx_buffer := buf_write (rx_buffer dev) 0 (take 4 header)\<rparr>;
                   payload_len = packet_len - SHTP_HEADER_SIZE
               in if payload_len > 0 then
                    (case twim_read hw1 (i2c_addr dev1) (unat payload_len) of
                       (result2, body, hw2) \<Rightarrow>
                         let dev2 = dev1\<lparr>rx_buffer :=
                                       buf_write (rx_buffer dev1) 4 (take (unat payload_len) body)\<rparr>
                         in if result2 < 0 then (dev2, BNO085_ERR_I2C, hw2)
                            else (dev2\<lparr>rx_len := packet_len\<rparr>, uint packet_len, hw2))
                  else (dev1\<lparr>rx_len := packet_len\<rparr>, uint packet_len, hw1))"

text \<open>The length a 4-byte header announces: 15 bits, little-endian, bit 15 dropped.\<close>

definition announced_len :: "u8 list \<Rightarrow> u16" where
  "announced_len header = ucast (header ! 0) OR push_bit 8 (ucast (header ! 1 AND 0x7F))"

text \<open>
  A loop-back transport for the framing property: the bus state is the byte stream still
  to be read, and a read of \<open>n\<close> bytes succeeds with the next \<open>n\<close> bytes of it.
\<close>

definition wire_read :: "u8 list \<Rightarrow> u8 \<Rightarrow> nat \<Rightarrow> int \<times> u8 list \<times> u8 list" where
  "wire_read stream addr n = (int n, take n stream, drop n stream)"

section \<open>Sensor report decoder (\<^verbatim>\<open>src/bno085.c\<close>, \<^verbatim>\<open>include/shtp.h\<close>)\<close>

definition SH2_ACCELEROMETER :: u8 where "SH2_ACCELEROMETER = 0x01"
definition SH2_GYROSCOPE :: u8 where "SH2_GYROSCOPE = 0x02"
definition SH2_MAGNETOMETER :: u8 where "SH2_MAGNETOMETER = 0x03"
definition SH2_LINEAR_ACCELERATION :: u8 where "SH2_LINEAR_ACCELERATION = 0x04"
definition SH2_ROTATION_VECTOR :: u8 where "SH2_ROTATION_VECTOR = 0x05"
definition SH2_GRAVITY :: u8 where "SH2_GRAVITY = 0x06"
definition SH2_GAME_ROTATION_VECTOR :: u8 where "SH2_GAME_ROTATION_VECTOR = 0x08"
definition SH2_GEOMAGNETIC_ROTATION :: u8 where "SH2_GEOMAGNETIC_ROTATION = 0x09"
definition SH2_STEP_COUNTER :: u8 where "SH2_STEP_COUNTER = 0x11"
definition SH2_STABILITY_CLASSIFIER :: u8 where "SH2_STABILITY_CLASSIFIER = 0x13"

definition SHTP_Q_ROTATION_VECTOR :: nat where "SHTP_Q_ROTATION_VECTOR = 14"
definition SHTP_Q_ACCELEROMETER :: nat where "SHTP_Q_ACCELEROMETER = 8"
definition SHTP_Q_GYROSCOPE :: nat where "SHTP_Q_GYROSCOPE = 9"
definition SHTP_Q_MAGNETOMETER :: nat where "SHTP_Q_MAGNETOMETER = 4"
definition SHTP_Q_ACCURACY :: nat where "SHTP_Q_ACCURACY = 12"


text \<open>
  \<^verbatim>\<open>#define SHTP_Q_TO_FLOAT(val, q) ((float)(val) / (float)(1 << (q)))\<close> on an
  \<^verbatim>\<open>int16_t\<close> value. Each conversion and the division round to binary32; the rounding
  \<open>rnd\<close> is a parameter of the model.
\<close>

definition SHTP_Q_TO_FLOAT :: "(real \<Rightarrow> real) \<Rightarrow> u16 \<Rightarrow> nat \<Rightarrow> real" where
  "SHTP_Q_TO_FLOAT rnd val q = rnd (rnd (of_int (sint val)) / rnd (of_int (2 ^ q)))"

record bno085_quaternion_t =
  quat_i :: real
  quat_j :: real
  quat_k :: real
  quat_real :: real
  accuracy_rad :: real
  status :: u8

record bno085_vector_t =
  vec_x :: real
  vec_y :: real
  vec_z :: real
  accuracy :: u8

record bno085_data_t =
  rotation_vector :: bno085_quaternion_t
  game_rotation :: bno085_quaternion_t
  accelerometer :: bno085_vector_t
  gyroscope :: bno085_vector_t
  magnetometer :: bno085_vector_t
  linear_accel :: bno085_vector_t
  gravity :: bno085_vector_t
  step_count :: u32
  stability :: u8
  timestamp_us :: u32
  report_id :: u8

text \<open>\<^verbatim>\<open>(int16_t)(lo | (hi << 8))\<close>\<close>

definition le16 :: "u8 \<Rightarrow> u8 \<Rightarrow> u16" where
  "le16 lo hi = ucast lo OR push_bit 8 (ucast hi)"

text \<open>The three little-endian 16-bit fields at payload offsets 5..10, scaled by \<open>q\<close>.\<close>

definition decode_vector :: "(real \<Rightarrow> real) \<Rightarrow> (nat \<Rightarrow> u8) \<Rightarrow> nat \<Rightarrow> bno085_vector_t" where
  "decode_vector rnd payload q =
     \<lparr>vec_x = SHTP_Q_TO_FLOAT rnd (le16 (payload 5) (payload 6)) q,
      vec_y = SHTP_Q_TO_FLOAT rnd (le16 (payload 7) (payload 8)) q,
      vec_z = SHTP_Q_TO_FLOAT rnd (le16 (payload 9) (payload 10)) q,
      accuracy = payload 2 AND 0x03\<rparr>"

text \<open>
  \<^verbatim>\<open>bno085_parse_sensor_report\<close>: the \<^verbatim>\<open>switch\<close> on the report id, case by case in the
  source's order. The result is the updated \<^verbatim>\<open>*data\<close> and the return value.
\<close>

definition bno085_parse_sensor_report ::
  "(real \<Rightarrow> real) \<Rightarrow> bno085_t \<Rightarrow> bno085_data_t \<Rightarrow> bno085_data_t \<times> int" where
  "bno085_parse_sensor_report rnd dev data =
     (let channel = rx_buffer dev ! 2;
          payload = (\<lambda>n. rx_buffer dev ! (4 + n));
          payload_len = rx_len dev - SHTP_HEADER_SIZE
      in if channel \<noteq> SHTP_CHANNEL_REPORTS then (data, 0)
         else if payload_len < 5 then (data, BNO085_ERR_INVALID_DATA)
         else
           let rid = payload 0 in
           if rid = SH2_ROTATION_VECTOR \<or> rid = SH2_GAME_ROTATION_VECTOR
                \<or> rid = SH2_GEOMAGNETIC_ROTATION then
             if payload_len < 14 then (data, BNO085_ERR_INVALID_DATA)
             else
               let quat =
                     \<lparr>quat_i = SHTP_Q_TO_FLOAT rnd (le16 (payload 5) (payload 6)) SHTP_Q_ROTATION_VECTOR,
                      quat_j = SHTP_Q_TO_FLOAT rnd (le16 (payload 7) (payload 8)) SHTP_Q_ROTATION_VECTOR,
                      quat_k = SHTP_Q_TO_FLOAT rnd (le16 (payload 9) (payload 10)) SHTP_Q_ROTATION_VECTOR,
                      quat_real = SHTP_Q_TO_FLOAT rnd (le16 (payload 11) (payload 12)) SHTP_Q_ROTATION_VECTOR,
                      accuracy_rad =
                        (if rid = SH2_ROTATION_VECTOR \<and> payload_len \<ge> 16
                         then SHTP_Q_TO_FLOAT rnd (le16 (payload 13) (payload 14)) SHTP_Q_ACCURACY
                         else 0),
                      status = payload 2 AND 0x03\<rparr>;
                   data' = (if rid = SH2_GAME_ROTATION_VECTOR then data\<lparr>game_rotation := quat\<rparr>
                            else data\<lparr>rotation_vector := quat\<rparr>)
               in (data'\<lparr>report_id := rid\<rparr>, uint rid)
           else if rid = SH2_ACCELEROMETER \<or> rid = SH2_LINEAR_ACCELERATION \<or> rid = SH2_GRAVITY then
             if payload_len < 10 then (data, BNO085_ERR_INVALID_DATA)
             else
               let vec = decode_vector rnd payload SHTP_Q_ACCELEROMETER;
                   data' = (if rid = SH2_ACCELEROMETER then data\<lparr>accelerometer := vec\<rparr>
                            else if rid = SH2_LINEAR_ACCELERATION then data\<lparr>linear_accel := vec\<rparr>
                            else data\<lparr>gravity := vec\<rparr>)
               in (data'\<lparr>report_id := rid\<rparr>, uint rid)
           else if rid = SH2_GYROSCOPE then
             if payload_len < 10 then (data, BNO085_ERR_INVALID_DATA)
             else (data\<lparr>gyroscope := decode_vector rnd payload SHTP_Q_GYROSCOPE,
                        report_id := rid\<rparr>, uint rid)
           else if rid = SH2_MAGNETOMETER then
             if payload_len < 10 then (data, BNO085_ERR_INVALID_DATA)
             else (data\<lparr>magnetometer := decode_vector rnd payload SHTP_Q_MAGNETOMETER,
                        report_id := rid\<rparr>, uint rid)
           else if rid = SH2_STEP_COUNTER then
             if payload_len < 9 then (data, BNO085_ERR_INVALID_DATA)
             else (data\<lparr>step_count :=
                          ucast (payload 5) OR push_bit 8 (ucast (payload 6))
                            OR push_bit 16 (ucast (payload 7)) OR push_bit 24 (ucast (payload 8)),
                        report_id := rid\<rparr>, uint rid)
           else if rid = SH2_STABILITY_CLASSIFIER then
             if payload_len < 6 then (data, BNO085_ERR_INVALID_DATA)
             else (data\<lparr>stability := payload 5, report_id := rid\<rparr>, uint rid)
           else (data, 0))"

text \<open>
  The length of each report as \<^verbatim>\<open>bno085_parse_sensor_report\<close> lays it out: the number of
  payload bytes up to the last field it converts. The rotation vectors have four 16-bit
  fields at \<^verbatim>\<open>payload[5..12]\<close> (13 bytes), the 3-axis vectors three at \<^verbatim>\<open>payload[5..10]\<close>
  (11 bytes), the step counter four bytes at \<^verbatim>\<open>payload[5..8]\<close> (9 bytes), the stability
  classifier one byte at \<^verbatim>\<open>payload[5]\<close> (6 bytes). \<open>None\<close> for the ids that fall to
  \<^verbatim>\<open>default\<close>. A payload shorter than this does not hold the report.
\<close>

definition report_min_len :: "u8 \<Rightarrow> nat option" where
  "report_min_len rid =
     (if rid = SH2_ROTATION_VECTOR \<or> rid = SH2_GAME_ROTATION_VECTOR
           \<or> rid = SH2_GEOMAGNETIC_ROTATION then Some 13
      else if rid = SH2_ACCELEROMETER \<or> rid = SH2_LINEAR_ACCELERATION \<or> rid = SH2_GRAVITY
           \<or> rid = SH2_GYROSCOPE \<or> rid = SH2_MAGNETOMETER then Some 11
      else if rid = SH2_STEP_COUNTER then Some 9
      else if rid = SH2_STABILITY_CLASSIFIER then Some 6
      else None)"





section \<open>BLE IMU service (\<^verbatim>\<open>src/ble_imu_service.c\<close>)\<close>

definition NRF_SUCCESS :: u32 where "NRF_SUCCESS = 0"
definition NRF_ERROR_INVALID_PARAM :: u32 where "NRF_ERROR_INVALID_PARAM = 7"
definition NRF_ERROR_INVALID_STATE :: u32 where "NRF_ERROR_INVALID_STATE = 8"

definition BLE_CONN_HANDLE_INVALID :: u16 where "BLE_CONN_HANDLE_INVALID = 0xFFFF"
definition BLE_GATT_HVX_NOTIFICATION :: u8 where "BLE_GATT_HVX_NOTIFICATION = 0x01"

definition BLE_IMU_QUAT_SIZE :: u16 where "BLE_IMU_QUAT_SIZE = 16"
definition BLE_IMU_ACCEL_SIZE :: u16 where "BLE_IMU_ACCEL_SIZE = 12"
definition BLE_IMU_GYRO_SIZE :: u16 where "BLE_IMU_GYRO_SIZE = 12"
definition BLE_IMU_STATUS_SIZE :: u16 where "BLE_IMU_STATUS_SIZE = 1"

record ble_gatts_char_handles_t =
  value_handle :: u16
  user_desc_handle :: u16
  cccd_handle :: u16
  sccd_handle :: u16

text \<open>
  \<^verbatim>\<open>ble_imu_service_t\<close>. The callback pointer \<^verbatim>\<open>evt_handler\<close> is kept as the fact that
  it is not \<^verbatim>\<open>NULL\<close>; the calls made through it are returned as a list of events.
\<close>

record ble_imu_service_t =
  service_handle :: u16
  conn_handle :: u16
  quat_handles :: ble_gatts_char_handles_t
  accel_handles :: ble_gatts_char_handles_t
  gyro_handles :: ble_gatts_char_handles_t
  rate_handles :: ble_gatts_char_handles_t
  status_handles :: ble_gatts_char_handles_t
  quat_notify_enabled :: bool
  accel_notify_enabled :: bool
  gyro_notify_enabled :: bool
  status_notify_enabled :: bool
  sample_rate_ms :: u16
  status_flags :: u8
  evt_handler :: bool
  uuid_type :: u8

datatype ble_imu_evt_type_t =
    BLE_IMU_EVT_CONNECTED
  | BLE_IMU_EVT_DISCONNECTED
  | BLE_IMU_EVT_QUAT_NOTIFY_EN
  | BLE_IMU_EVT_QUAT_NOTIFY_DIS
  | BLE_IMU_EVT_ACCEL_NOTIFY_EN
  | BLE_IMU_EVT_ACCEL_NOTIFY_DIS
  | BLE_IMU_EVT_GYRO_NOTIFY_EN
  | BLE_IMU_EVT_GYRO_NOTIFY_DIS
  | BLE_IMU_EVT_STATUS_NOTIFY_EN
  | BLE_IMU_EVT_STATUS_NOTIFY_DIS
  | BLE_IMU_EVT_RATE_WRITE
  | BLE_IMU_EVT_TX_COMPLETE

text \<open>The union \<^verbatim>\<open>data\<close> of \<^verbatim>\<open>ble_imu_evt_t\<close>: the member the source assigns, if any.\<close>

datatype ble_imu_evt_data = Data_unset | Rate_ms u16 | Tx_count u8

record ble_imu_evt_t =
  evt_type :: ble_imu_evt_type_t
  evt_conn_handle :: u16
  evt_data :: ble_imu_evt_data

text \<open>The fields of \<^verbatim>\<open>ble_gatts_evt_write_t\<close> that the service reads.\<close>

record ble_gatts_evt_write_t =
  wr_handle :: u16
  wr_len :: u16
  wr_data :: "u8 list"

text \<open>
  \<^verbatim>\<open>ble_evt_t\<close> is a union tagged by \<^verbatim>\<open>header.evt_id\<close>: one constructor for each id the
  two event handlers switch on, with the members they read, and one for every other id.
\<close>

datatype ble_evt_t =
    BLE_GAP_EVT_CONNECTED u16
  | BLE_GAP_EVT_DISCONNECTED u16
  | BLE_GAP_EVT_ADV_SET_TERMINATED u8
  | BLE_GATTS_EVT_WRITE ble_gatts_evt_write_t
  | BLE_GATTS_EVT_HVN_TX_COMPLETE u8
  | BLE_EVT_OTHER u16

text \<open>\<^verbatim>\<open>if (service->evt_handler != NULL) { ...; service->evt_handler(&evt); }\<close>\<close>

definition call_evt_handler ::
  "ble_imu_service_t \<Rightarrow> ble_imu_evt_type_t \<Rightarrow> ble_imu_evt_data \<Rightarrow> ble_imu_evt_t list" where
  "call_evt_handler service t d =
     (if evt_handler service
      then [\<lparr>evt_type = t, evt_conn_handle = conn_handle service, evt_data = d\<rparr>] else [])"

definition on_write ::
  "ble_imu_service_t \<Rightarrow> ble_gatts_evt_write_t \<Rightarrow> ble_imu_service_t \<times> ble_imu_evt_t list" where
  "on_write service p_evt =
     (if wr_handle p_evt = cccd_handle (quat_handles service) \<and> wr_len p_evt = 2 then
        let enabled = (wr_data p_evt ! 0 AND 0x01) \<noteq> 0;
            service' = service\<lparr>quat_notify_enabled := enabled\<rparr>
        in (service', call_evt_handler service'
              (if enabled then BLE_IMU_EVT_QUAT_NOTIFY_EN else BLE_IMU_EVT_QUAT_NOTIFY_DIS) Data_unset)
      else if wr_handle p_evt = cccd_handle (accel_handles service) \<and> wr_len p_evt = 2 then
        let enabled = (wr_data p_evt ! 0 AND 0x01) \<noteq> 0;
            service' = service\<lparr>accel_notify_enabled := enabled\<rparr>
        in (service', call_evt_handler service'
              (if enabled then BLE_IMU_EVT_ACCEL_NOTIFY_EN else BLE_IMU_EVT_ACCEL_NOTIFY_DIS) Data_unset)
      else if wr_handle p_evt = cccd_handle (gyro_handles service) \<and> wr_len p_evt = 2 then
        let enabled = (wr_data p_evt ! 0 AND 0x01) \<noteq> 0;
            service' = service\<lparr>gyro_notify_enabled := enabled\<rparr>
        in (service', call_evt_handler service'
              (if enabled then BLE_IMU_EVT_GYRO_NOTIFY_EN else BLE_IMU_EVT_GYRO_NOTIFY_DIS) Data_unset)
      else if wr_handle p_evt = cccd_handle (status_handles service) \<and> wr_len p_evt = 2 then
        let enabled = (wr_data p_evt ! 0 AND 0x01) \<noteq> 0;
            service' = service\<lparr>status_notify_enabled := enabled\<rparr>
        in (service', call_evt_handler service'
              (if enabled then BLE_IMU_EVT_STATUS_NOTIFY_EN else BLE_IMU_EVT_STATUS_NOTIFY_DIS) Data_unset)
      else if wr_handle p_evt = value_handle (rate_handles service) \<and> wr_len p_evt = 2 then
        let new_rate = (ucast (wr_data p_evt ! 0) OR push_bit 8 (ucast (wr_data p_evt ! 1))) :: u16
        in if new_rate \<ge> 1 \<and> new_rate \<le> 1000 then
             let service' = service\<lparr>sample_rate_ms := new_rate\<rparr>
             in (service', call_evt_handler service' BLE_IMU_EVT_RATE_WRITE (Rate_ms new_rate))
           else (service, [])
      else (service, []))"

text \<open>
  \<^verbatim>\<open>ble_imu_service_on_ble_evt\<close>. A pointer argument is an option, \<open>None\<close> for \<^verbatim>\<open>NULL\<close>;
  the result is the service structure after the call and the handler calls made.
\<close>

definition ble_imu_service_on_ble_evt ::
  "ble_imu_service_t option \<Rightarrow> ble_evt_t option \<Rightarrow> ble_imu_service_t option \<times> ble_imu_evt_t list" where
  "ble_imu_service_on_ble_evt service p_ble_evt =
     (case (service, p_ble_evt) of
        (Some s, Some e) \<Rightarrow>
          (case e of
             BLE_GAP_EVT_CONNECTED h \<Rightarrow>
               let s' = s\<lparr>conn_handle := h, quat_notify_enabled := False,
                          accel_notify_enabled := False, gyro_notify_enabled := False,
                          status_notify_enabled := False\<rparr>
               in (Some s', call_evt_handler s' BLE_IMU_EVT_CONNECTED Data_unset)
           | BLE_GAP_EVT_DISCONNECTED h \<Rightarrow>
               (Some (s\<lparr>conn_handle := BLE_CONN_HANDLE_INVALID, quat_notify_enabled := False,
                         accel_notify_enabled := False, gyro_notify_enabled := False,
                         status_notify_enabled := False\<rparr>),
                call_evt_handler s BLE_IMU_EVT_DISCONNECTED Data_unset)
           | BLE_GATTS_EVT_WRITE w \<Rightarrow> (case on_write s w of (s', evts) \<Rightarrow> (Some s', evts))
           | BLE_GATTS_EVT_HVN_TX_COMPLETE n \<Rightarrow>
               (Some s, call_evt_handler s BLE_IMU_EVT_TX_COMPLETE (Tx_count n))
           | _ \<Rightarrow> (Some s, []))
      | _ \<Rightarrow> (service, []))"

text \<open>
  The parameters handed to \<^verbatim>\<open>sd_ble_gatts_hvx\<close>. The value pointed to by \<^verbatim>\<open>p_data\<close> is
  kept as it is passed in (the bytes of the sample structure); \<^verbatim>\<open>p_len\<close> is the length.
\<close>

record 'p ble_gatts_hvx_params_t =
  hvx_handle :: u16
  hvx_type :: u8
  hvx_offset :: u16
  p_len :: u16
  p_data :: 'p

text \<open>
  \<^verbatim>\<open>notify_send\<close>: the SoftDevice call \<^verbatim>\<open>sd_ble_gatts_hvx\<close> is a parameter; the result is
  its return value and the list of calls made to it (connection handle and parameters).
\<close>

definition notify_send ::
  "(u16 \<Rightarrow> 'p ble_gatts_hvx_params_t \<Rightarrow> u32) \<Rightarrow> u16 \<Rightarrow> u16 \<Rightarrow> 'p \<Rightarrow> u16
     \<Rightarrow> u32 \<times> (u16 \<times> 'p ble_gatts_hvx_params_t) list" where
  "notify_send sd_ble_gatts_hvx conn value_h data len =
     (let hvx_params = \<lparr>hvx_handle = value_h, hvx_type = BLE_GATT_HVX_NOTIFICATION,
                         hvx_offset = 0, p_len = len, p_data = data\<rparr>
      in (sd_ble_gatts_hvx conn hvx_params, [(conn, hvx_params)]))"

definition ble_imu_notify_quaternion ::
  "(u16 \<Rightarrow> 'p ble_gatts_hvx_params_t \<Rightarrow> u32) \<Rightarrow> ble_imu_service_t option \<Rightarrow> 'p option
     \<Rightarrow> u32 \<times> (u16 \<times> 'p ble_gatts_hvx_params_t) list" where
  "ble_imu_notify_quaternion sd_ble_gatts_hvx service quat =
     (case (service, quat) of
        (Some s, Some q) \<Rightarrow>
          if conn_handle s = BLE_CONN_HANDLE_INVALID then (NRF_ERROR_INVALID_STATE, [])
          else if \<not> quat_notify_enabled s then (NRF_SUCCESS, [])
          else notify_send sd_ble_gatts_hvx (conn_handle s) (value_handle (quat_handles s)) q
                 BLE_IMU_QUAT_SIZE
      | _ \<Rightarrow> (NRF_ERROR_INVALID_PARAM, []))"

definition ble_imu_notify_accelerometer ::
  "(u16 \<Rightarrow> 'p ble_gatts_hvx_params_t \<Rightarrow> u32) \<Rightarrow> ble_imu_service_t option \<Rightarrow> 'p option
     \<Rightarrow> u32 \<times> (u16 \<times> 'p ble_gatts_hvx_params_t) list" where
  "ble_imu_notify_accelerometer sd_ble_gatts_hvx service accel =
     (case (service, accel) of
        (Some s, Some a) \<Rightarrow>
          if conn_handle s = BLE_CONN_HANDLE_INVALID then (NRF_ERROR_INVALID_STATE, [])
          else if \<not> accel_notify_enabled s then (NRF_SUCCESS, [])
          else notify_send sd_ble_gatts_hvx (conn_handle s) (value_handle (accel_handles s)) a
                 BLE_IMU_ACCEL_SIZE
      | _ \<Rightarrow> (NRF_ERROR_INVALID_PARAM, []))"

definition ble_imu_notify_gyroscope ::
  "(u16 \<Rightarrow> 'p ble_gatts_hvx_params_t \<Rightarrow> u32) \<Rightarrow> ble_imu_service_t option \<Rightarrow> 'p option
     \<Rightarrow> u32 \<times> (u16 \<times> 'p ble_gatts_hvx_params_t) list" where
  "ble_imu_notify_gyroscope sd_ble_gatts_hvx service gyro =
     (case (service, gyro) of
        (Some s, Some g) \<Rightarrow>
          if conn_handle s = BLE_CONN_HANDLE_INVALID then (NRF_ERROR_INVALID_STATE, [])
          else if \<not> gyro_notify_enabled s then (NRF_SUCCESS, [])
          else notify_send sd_ble_gatts_hvx (conn_handle s) (value_handle (gyro_handles s)) g
                 BLE_IMU_GYRO_SIZE
      | _ \<Rightarrow> (NRF_ERROR_INVALID_PARAM, []))"

text \<open>
  \<^verbatim>\<open>ble_imu_notify_status\<close> takes the status byte by value and stores it in the service
  before it looks at the notify flag, so the service structure is part of the result.
\<close>

definition ble_imu_notify_status ::
  "(u16 \<Rightarrow> u8 ble_gatts_hvx_params_t \<Rightarrow> u32) \<Rightarrow> ble_imu_service_t option \<Rightarrow> u8
     \<Rightarrow> u32 \<times> ble_imu_service_t option \<times> (u16 \<times> u8 ble_gatts_hvx_params_t) list" where
  "ble_imu_notify_status sd_ble_gatts_hvx service st =
     (case service of
        None \<Rightarrow> (NRF_ERROR_INVALID_PARAM, None, [])
      | Some s \<Rightarrow>
          if conn_handle s = BLE_CONN_HANDLE_INVALID then (NRF_ERROR_INVALID_STATE, Some s, [])
          else
            let s' = s\<lparr>status_flags := st\<rparr> in
            if \<not> status_notify_enabled s' then (NRF_SUCCESS, Some s', [])
            else (case notify_send sd_ble_gatts_hvx (conn_handle s') (value_handle (status_handles s'))
                         st BLE_IMU_STATUS_SIZE of
                    (rc, calls) \<Rightarrow> (rc, Some s', calls)))"

section \<open>Advertising policy (\<^verbatim>\<open>src/ble_advertising.c\<close>)\<close>

datatype ble_adv_mode_t = BLE_ADV_MODE_IDLE | BLE_ADV_MODE_FAST | BLE_ADV_MODE_SLOW

datatype ble_adv_evt_t =
    BLE_ADV_EVT_STARTED
  | BLE_ADV_EVT_STOPPED
  | BLE_ADV_EVT_FAST_TIMEOUT
  | BLE_ADV_EVT_SLOW_TIMEOUT
  | BLE_ADV_EVT_CONNECTED

definition BLE_GAP_ADV_SET_DATA_SIZE_MAX :: nat where "BLE_GAP_ADV_SET_DATA_SIZE_MAX = 31"
definition BLE_ADV_MAX_UUIDS :: nat where "BLE_ADV_MAX_UUIDS = 4"
definition BLE_UUID_TYPE_BLE :: u8 where "BLE_UUID_TYPE_BLE = 0x01"
definition BLE_APPEARANCE_GENERIC_TAG :: u16 where "BLE_APPEARANCE_GENERIC_TAG = 512"
definition BLE_GAP_ADV_FLAGS_LE_ONLY_GENERAL_DISC_MODE :: u8 where
  "BLE_GAP_ADV_FLAGS_LE_ONLY_GENERAL_DISC_MODE = 0x06"
definition BLE_GAP_AD_TYPE_FLAGS :: u8 where "BLE_GAP_AD_TYPE_FLAGS = 0x01"
definition BLE_GAP_AD_TYPE_16BIT_SERVICE_UUID_COMPLETE :: u8 where
  "BLE_GAP_AD_TYPE_16BIT_SERVICE_UUID_COMPLETE = 0x03"
definition BLE_GAP_AD_TYPE_SHORT_LOCAL_NAME :: u8 where "BLE_GAP_AD_TYPE_SHORT_LOCAL_NAME = 0x08"
definition BLE_GAP_AD_TYPE_COMPLETE_LOCAL_NAME :: u8 where
  "BLE_GAP_AD_TYPE_COMPLETE_LOCAL_NAME = 0x09"
definition BLE_GAP_AD_TYPE_TX_POWER_LEVEL :: u8 where "BLE_GAP_AD_TYPE_TX_POWER_LEVEL = 0x0A"
definition BLE_GAP_AD_TYPE_APPEARANCE :: u8 where "BLE_GAP_AD_TYPE_APPEARANCE = 0x19"
definition BLE_GAP_AD_TYPE_MANUFACTURER_SPECIFIC_DATA :: u8 where
  "BLE_GAP_AD_TYPE_MANUFACTURER_SPECIFIC_DATA = 0xFF"

record ble_uuid_t =
  uuid :: u16
  utype :: u8

text \<open>
  \<^verbatim>\<open>ble_advertising_config_t\<close>. \<^verbatim>\<open>uuids\<close> is an array of \<^verbatim>\<open>BLE_ADV_MAX_UUIDS\<close> entries;
  \<^verbatim>\<open>p_manuf_data\<close> is \<open>None\<close> for \<^verbatim>\<open>NULL\<close> and otherwise the bytes it points to.
\<close>

record ble_advertising_config_t =
  fast_interval :: u16
  slow_interval :: u16
  fast_timeout :: u16
  slow_timeout :: u16
  include_name :: bool
  include_appearance :: bool
  include_tx_power :: bool
  uuids :: "ble_uuid_t list"
  uuid_count :: u8
  include_name_in_sr :: bool
  p_manuf_data :: "u8 list option"
  manuf_data_len :: u8
  company_id :: u16
  auto_restart :: bool

text \<open>
  The module's file-scope state. \<^verbatim>\<open>m_adv_data\<close> and \<^verbatim>\<open>m_scan_rsp_data\<close> are the two
  31-byte buffers; \<open>adv_data_len\<close>, \<open>scan_rsp_data_set\<close> (the pointer is not \<^verbatim>\<open>NULL\<close>) and
  \<open>scan_rsp_data_len\<close> are the fields of \<^verbatim>\<open>m_adv_data_struct\<close>; \<^verbatim>\<open>m_evt_handler\<close> is kept
  as the fact that it is not \<^verbatim>\<open>NULL\<close>, and the calls made through it are returned.
\<close>

record ble_advertising_module =
  m_adv_data :: "u8 list"
  m_scan_rsp_data :: "u8 list"
  m_adv_handle :: u8
  m_initialized :: bool
  m_adv_mode :: ble_adv_mode_t
  m_config :: ble_advertising_config_t
  m_evt_handler :: bool
  adv_data_len :: u16
  scan_rsp_data_set :: bool
  scan_rsp_data_len :: u16

text \<open>
  The SoftDevice is the module's environment. \<open>sd_appearance\<close> is the value
  \<^verbatim>\<open>sd_ble_gap_appearance_get\<close> stores (\<open>None\<close> when it stores nothing); \<open>sd_name_rc\<close>,
  \<open>sd_name\<close> and \<open>sd_name_len\<close> are the return value of \<^verbatim>\<open>sd_ble_gap_device_name_get\<close>,
  the content of the 32-byte \<^verbatim>\<open>name\<close> array after it, and the length it reports;
  \<open>sd_adv_set_configure_rc\<close> and \<open>sd_adv_handle\<close> are the return value of
  \<^verbatim>\<open>sd_ble_gap_adv_set_configure\<close> and the handle it leaves in \<^verbatim>\<open>m_adv_handle\<close>;
  \<open>sd_adv_start_rc\<close> is the return value of \<^verbatim>\<open>sd_ble_gap_adv_start\<close>.
\<close>

record softdevice =
  sd_appearance :: "u16 option"
  sd_name_rc :: u32
  sd_name :: "u8 list"
  sd_name_len :: u16
  sd_adv_set_configure_rc :: u32
  sd_adv_handle :: u8
  sd_adv_start_rc :: u32

text \<open>Sequencing of calls that may run into undefined behaviour.\<close>

definition obind :: "'a outcome \<Rightarrow> ('a \<Rightarrow> 'b outcome) \<Rightarrow> 'b outcome" where
  "obind x f = (case x of Undefined \<Rightarrow> Undefined | Returns a \<Rightarrow> f a)"

text \<open>
  \<^verbatim>\<open>p[len++] = b\<close> on a 31-byte buffer with a \<^verbatim>\<open>uint8_t\<close> index: a write at index 31 or
  above is outside the array.
\<close>

definition put_byte :: "u8 \<Rightarrow> u8 list \<times> u8 \<Rightarrow> (u8 list \<times> u8) outcome" where
  "put_byte b st =
     (case st of (buf, len) \<Rightarrow>
        if unat len < BLE_GAP_ADV_SET_DATA_SIZE_MAX then Returns (buf[unat len := b], len + 1)
        else Undefined)"

fun put_bytes :: "u8 list \<Rightarrow> u8 list \<times> u8 \<Rightarrow> (u8 list \<times> u8) outcome" where
  "put_bytes [] st = Returns st"
| "put_bytes (b # bs) st = obind (put_byte b st) (put_bytes bs)"

text \<open>
  \<^verbatim>\<open>memcpy(&p[len], src, n); len += n;\<close> where \<open>src\<close> is the content of the source
  object: reading past the source or writing past the buffer is undefined.
\<close>

definition copy_bytes :: "u8 list \<Rightarrow> nat \<Rightarrow> u8 list \<times> u8 \<Rightarrow> (u8 list \<times> u8) outcome" where
  "copy_bytes src n st = (if n \<le> length src then put_bytes (take n src) st else Undefined)"

text \<open>The blocks of \<^verbatim>\<open>adv_data_build\<close>, in the source's order.\<close>

definition flags_field :: "u8 list \<times> u8 \<Rightarrow> (u8 list \<times> u8) outcome" where
  "flags_field st =
     (if unat (snd st) + 3 \<le> BLE_GAP_ADV_SET_DATA_SIZE_MAX
      then put_bytes [2, BLE_GAP_AD_TYPE_FLAGS, BLE_GAP_ADV_FLAGS_LE_ONLY_GENERAL_DISC_MODE] st
      else Returns st)"

text \<open>
  The loop \<^verbatim>\<open>for (i = 0; i < m_config.uuid_count; i++)\<close> over the indices it visits;
  reading \<^verbatim>\<open>m_config.uuids[i]\<close> with \<open>i\<close> at 4 or above is outside the array.
\<close>

fun put_uuids :: "ble_uuid_t list \<Rightarrow> nat list \<Rightarrow> u8 list \<times> u8 \<Rightarrow> (u8 list \<times> u8) outcome" where
  "put_uuids us [] st = Returns st"
| "put_uuids us (i # rest) st =
     (if i < BLE_ADV_MAX_UUIDS \<and> i < length us then
        (if utype (us ! i) = BLE_UUID_TYPE_BLE
         then obind (put_bytes [ucast (uuid (us ! i) AND 0xFF), ucast (drop_bit 8 (uuid (us ! i)))] st)
                (put_uuids us rest)
         else put_uuids us rest st)
      else Undefined)"

definition uuid_field :: "ble_advertising_config_t \<Rightarrow> u8 list \<times> u8 \<Rightarrow> (u8 list \<times> u8) outcome" where
  "uuid_field cfg st =
     (if uuid_count cfg > 0 then
        let uuid_field_len = (1 + uuid_count cfg * 2 :: u8) in
        if unat (snd st) + 1 + unat uuid_field_len \<le> BLE_GAP_ADV_SET_DATA_SIZE_MAX then
          obind (put_bytes [uuid_field_len, BLE_GAP_AD_TYPE_16BIT_SERVICE_UUID_COMPLETE] st)
            (put_uuids (uuids cfg) [0 ..< unat (uuid_count cfg)])
        else Returns st
      else Returns st)"

definition tx_power_field ::
  "ble_advertising_config_t \<Rightarrow> u8 list \<times> u8 \<Rightarrow> (u8 list \<times> u8) outcome" where
  "tx_power_field cfg st =
     (if include_tx_power cfg \<and> unat (snd st) + 3 \<le> BLE_GAP_ADV_SET_DATA_SIZE_MAX
      then put_bytes [2, BLE_GAP_AD_TYPE_TX_POWER_LEVEL, 0] st
      else Returns st)"

definition appearance_field ::
  "softdevice \<Rightarrow> ble_advertising_config_t \<Rightarrow> u8 list \<times> u8 \<Rightarrow> (u8 list \<times> u8) outcome" where
  "appearance_field sd cfg st =
     (if include_appearance cfg then
        let appearance = (case sd_appearance sd of None \<Rightarrow> BLE_APPEARANCE_GENERIC_TAG
                                                 | Some v \<Rightarrow> v) in
        if unat (snd st) + 4 \<le> BLE_GAP_ADV_SET_DATA_SIZE_MAX
        then put_bytes [3, BLE_GAP_AD_TYPE_APPEARANCE,
                        ucast (appearance AND 0xFF), ucast (drop_bit 8 appearance)] st
        else Returns st
      else Returns st)"

definition manuf_field ::
  "ble_advertising_config_t \<Rightarrow> u8 list \<times> u8 \<Rightarrow> (u8 list \<times> u8) outcome" where
  "manuf_field cfg st =
     (case p_manuf_data cfg of
        None \<Rightarrow> Returns st
      | Some manuf_data \<Rightarrow>
          if manuf_data_len cfg > 0 then
            let manuf_field_len = (2 + manuf_data_len cfg :: u8) in
            if unat (snd st) + 1 + unat manuf_field_len \<le> BLE_GAP_ADV_SET_DATA_SIZE_MAX then
              obind (put_bytes [manuf_field_len + 1, BLE_GAP_AD_TYPE_MANUFACTURER_SPECIFIC_DATA,
                                ucast (company_id cfg AND 0xFF), ucast (drop_bit 8 (company_id cfg))]
                       st)
                (copy_bytes manuf_data (unat (manuf_data_len cfg)))
            else Returns st
          else Returns st)"

text \<open>
  The device name in the advertising data: whole when it fits, otherwise shortened to
  \<^verbatim>\<open>uint8_t available = BLE_GAP_ADV_SET_DATA_SIZE_MAX - len - 2\<close> bytes, a subtraction that
  wraps around when \<^verbatim>\<open>len\<close> is 30 or 31.
\<close>

definition name_field ::
  "softdevice \<Rightarrow> ble_advertising_config_t \<Rightarrow> u8 list \<times> u8 \<Rightarrow> (u8 list \<times> u8) outcome" where
  "name_field sd cfg st =
     (if include_name cfg \<and> sd_name_rc sd = NRF_SUCCESS \<and> sd_name_len sd > 0 then
        if unat (snd st) + 2 + unat (sd_name_len sd) \<le> BLE_GAP_ADV_SET_DATA_SIZE_MAX then
          obind (put_bytes [ucast (sd_name_len sd) + 1, BLE_GAP_AD_TYPE_COMPLETE_LOCAL_NAME] st)
            (copy_bytes (sd_name sd) (unat (sd_name_len sd)))
        else
          let available = (31 - snd st - 2 :: u8) in
          if available > 0 then
            obind (put_bytes [available + 1, BLE_GAP_AD_TYPE_SHORT_LOCAL_NAME] st)
              (copy_bytes (sd_name sd) (unat available))
          else Returns st
      else Returns st)"

text \<open>The device name in the scan response, when it is not in the advertising data.\<close>

definition scan_rsp_name_field ::
  "softdevice \<Rightarrow> ble_advertising_config_t \<Rightarrow> u8 list \<times> u8 \<Rightarrow> (u8 list \<times> u8) outcome" where
  "scan_rsp_name_field sd cfg st =
     (if \<not> include_name cfg \<and> include_name_in_sr cfg
           \<and> sd_name_rc sd = NRF_SUCCESS \<and> sd_name_len sd > 0
           \<and> unat (snd st) + 2 + unat (sd_name_len sd) \<le> BLE_GAP_ADV_SET_DATA_SIZE_MAX
      then obind (put_bytes [ucast (sd_name_len sd) + 1, BLE_GAP_AD_TYPE_COMPLETE_LOCAL_NAME] st)
             (copy_bytes (sd_name sd) (unat (sd_name_len sd)))
      else Returns st)"

text \<open>
  \<^verbatim>\<open>adv_data_build\<close>: it always returns \<^verbatim>\<open>NRF_SUCCESS\<close>, so the result is the module
  state it leaves, or undefined behaviour.
\<close>

definition adv_data_build :: "softdevice \<Rightarrow> ble_advertising_module \<Rightarrow> ble_advertising_module outcome" where
  "adv_data_build sd m =
     obind (flags_field (m_adv_data m, 0)) (\<lambda>s1.
     obind (uuid_field (m_config m) s1) (\<lambda>s2.
     obind (tx_power_field (m_config m) s2) (\<lambda>s3.
     obind (appearance_field sd (m_config m) s3) (\<lambda>s4.
     obind (manuf_field (m_config m) s4) (\<lambda>s5.
     obind (name_field sd (m_config m) s5) (\<lambda>adv.
     obind (scan_rsp_name_field sd (m_config m) (m_scan_rsp_data m, 0)) (\<lambda>sr.
       Returns (m\<lparr>m_adv_data := fst adv, m_scan_rsp_data := fst sr,
                  adv_data_len := ucast (snd adv), scan_rsp_data_set := (snd sr > 0),
                  scan_rsp_data_len := ucast (snd sr)\<rparr>))))))))"

text \<open>
  \<^verbatim>\<open>adv_set_configure\<close>: builds the payload and hands the set to the SoftDevice; the result
  is the module state and the error code.
\<close>

definition adv_set_configure ::
  "softdevice \<Rightarrow> ble_adv_mode_t \<Rightarrow> ble_advertising_module \<Rightarrow> (ble_advertising_module \<times> u32) outcome" where
  "adv_set_configure sd mode m =
     (case mode of
        BLE_ADV_MODE_IDLE \<Rightarrow> Returns (m, NRF_ERROR_INVALID_PARAM)
      | _ \<Rightarrow> obind (adv_data_build sd m) (\<lambda>m1.
               Returns (m1\<lparr>m_adv_handle := sd_adv_handle sd\<rparr>, sd_adv_set_configure_rc sd)))"

text \<open>\<^verbatim>\<open>if (m_evt_handler != NULL) m_evt_handler(evt, m_adv_mode);\<close>\<close>

definition call_adv_handler ::
  "ble_advertising_module \<Rightarrow> ble_adv_evt_t \<Rightarrow> (ble_adv_evt_t \<times> ble_adv_mode_t) list" where
  "call_adv_handler m e = (if m_evt_handler m then [(e, m_adv_mode m)] else [])"

definition ble_advertising_start ::
  "softdevice \<Rightarrow> ble_advertising_module
     \<Rightarrow> (ble_advertising_module \<times> u32 \<times> (ble_adv_evt_t \<times> ble_adv_mode_t) list) outcome" where
  "ble_advertising_start sd m =
     (if \<not> m_initialized m then Returns (m, NRF_ERROR_INVALID_STATE, [])
      else if m_adv_mode m \<noteq> BLE_ADV_MODE_IDLE then Returns (m, NRF_ERROR_INVALID_STATE, [])
      else
        let start_mode = (if fast_timeout (m_config m) > 0 then BLE_ADV_MODE_FAST
                          else BLE_ADV_MODE_SLOW)
        in obind (adv_set_configure sd start_mode m) (\<lambda>(m1, err_code).
             if err_code \<noteq> NRF_SUCCESS then Returns (m1, err_code, [])
             else if sd_adv_start_rc sd \<noteq> NRF_SUCCESS then Returns (m1, sd_adv_start_rc sd, [])
             else
               let m2 = m1\<lparr>m_adv_mode := start_mode\<rparr>
               in Returns (m2, NRF_SUCCESS, call_adv_handler m2 BLE_ADV_EVT_STARTED)))"

text \<open>
  \<^verbatim>\<open>ble_advertising_on_ble_evt\<close>: the result is the module state after the event and the
  handler calls made, or undefined behaviour.
\<close>

definition ble_advertising_on_ble_evt ::
  "softdevice \<Rightarrow> ble_advertising_module \<Rightarrow> ble_evt_t option
     \<Rightarrow> (ble_advertising_module \<times> (ble_adv_evt_t \<times> ble_adv_mode_t) list) outcome" where
  "ble_advertising_on_ble_evt sd m p_ble_evt =
     (case p_ble_evt of
        None \<Rightarrow> Returns (m, [])
      | Some (BLE_GAP_EVT_CONNECTED h) \<Rightarrow>
          let m' = m\<lparr>m_adv_mode := BLE_ADV_MODE_IDLE\<rparr>
          in Returns (m', call_adv_handler m' BLE_ADV_EVT_CONNECTED)
      | Some (BLE_GAP_EVT_DISCONNECTED h) \<Rightarrow>
          if auto_restart (m_config m) \<and> m_initialized m
          then obind (ble_advertising_start sd m) (\<lambda>(m', err_code, calls). Returns (m', calls))
          else Returns (m, [])
      | Some (BLE_GAP_EVT_ADV_SET_TERMINATED reason) \<Rightarrow>
          if reason = 0x00 then
            if m_adv_mode m = BLE_ADV_MODE_FAST then
              let calls = call_adv_handler m BLE_ADV_EVT_FAST_TIMEOUT
              in obind (adv_set_configure sd BLE_ADV_MODE_SLOW m) (\<lambda>(m1, err_code).
                   if err_code = NRF_SUCCESS \<and> sd_adv_start_rc sd = NRF_SUCCESS
                   then Returns (m1\<lparr>m_adv_mode := BLE_ADV_MODE_SLOW\<rparr>, calls)
                   else Returns (m1, calls))
            else if m_adv_mode m = BLE_ADV_MODE_SLOW then
              let m' = m\<lparr>m_adv_mode := BLE_ADV_MODE_IDLE\<rparr>
              in Returns (m', call_adv_handler m' BLE_ADV_EVT_SLOW_TIMEOUT)
            else Returns (m, [])
          else Returns (m, [])
      | Some _ \<Rightarrow> Returns (m, []))"

text \<open>What an observer reads after the event: the mode, and the calls the handler received.\<close>

definition mode_after ::
  "(ble_advertising_module \<times> (ble_adv_evt_t \<times> ble_adv_mode_t) list) outcome
     \<Rightarrow> ble_adv_mode_t option" where
  "mode_after r = (case r of Undefined \<Rightarrow> None | Returns (m, calls) \<Rightarrow> Some (m_adv_mode m))"

definition calls_after ::
  "(ble_advertising_module \<times> (ble_adv_evt_t \<times> ble_adv_mode_t) list) outcome
     \<Rightarrow> (ble_adv_evt_t \<times> ble_adv_mode_t) list option" where
  "calls_after r = (case r of Undefined \<Rightarrow> None | Returns (m, calls) \<Rightarrow> Some calls)"

section \<open>Concrete inputs\<close>

text \<open>A device handle as \<^verbatim>\<open>bno085_init_config\<close> leaves it, with default address \<^verbatim>\<open>0x4A\<close>.\<close>

definition example_dev :: bno085_t where
  "example_dev =
     \<lparr>i2c_addr = 0x4A, int_pin = 0xFF, rst_pin = 0xFF, initialized = True,
      sequence = [0, 0, 7, 0, 0, 0],
      sw_version_major = 3, sw_version_minor = 2, sw_version_patch = 0,
      sw_part_number = 0, sw_build_number = 0,
      rx_buffer = replicate 512 0, rx_len = 0, enabled_reports = 0\<rparr>"

text \<open>Cached sensor data before any report has been decoded.\<close>

definition example_data :: bno085_data_t where
  "example_data =
     (let q0 = \<lparr>quat_i = 0, quat_j = 0, quat_k = 0, quat_real = 1, accuracy_rad = 0, status = 0\<rparr>;
          v0 = \<lparr>vec_x = 0, vec_y = 0, vec_z = 0, accuracy = 0\<rparr>
      in \<lparr>rotation_vector = q0, game_rotation = q0, accelerometer = v0, gyroscope = v0,
          magnetometer = v0, linear_accel = v0, gravity = v0, step_count = 0, stability = 0,
          timestamp_us = 0, report_id = 0\<rparr>)"

text \<open>The handle after \<open>packet\<close> (header and payload) has been received into it.\<close>

definition example_rx :: "u8 list \<Rightarrow> bno085_t" where
  "example_rx packet =
     example_dev\<lparr>rx_buffer := buf_write (rx_buffer example_dev) 0 packet,
                 rx_len := of_nat (length packet)\<rparr>"


text \<open>
  The handle after the same packet has been received over a buffer that held \<^verbatim>\<open>0xFF\<close>
  bytes from earlier, longer packets.
\<close>

definition example_rx_stale :: "u8 list \<Rightarrow> bno085_t" where
  "example_rx_stale packet =
     example_dev\<lparr>rx_buffer := buf_write (replicate 512 0xFF) 0 packet,
                 rx_len := of_nat (length packet)\<rparr>"

text \<open>
  An accelerometer report of 10 payload bytes: report id, the rest of the 5-byte common
  header with status 3, x = 256 and y = 512 (Q8: 1.0 and 2.0), and the low byte of z.
\<close>

definition ten_byte_accel_packet :: "u8 list" where
  "ten_byte_accel_packet =
     [0x0E, 0x00, 0x03, 0x01, 0x01, 0x00, 0x03, 0x00, 0x00, 0x00, 0x01, 0x00, 0x02, 0x00]"


text \<open>A report of the unknown id 7 with 10 payload bytes.\<close>

definition unknown_id_packet :: "u8 list" where
  "unknown_id_packet =
     [0x0E, 0x00, 0x03, 0x02, 0x07, 0x00, 0x03, 0x00, 0x00, 0x10, 0x00, 0x20, 0x00, 0x30]"

text \<open>
  A service structure as \<^verbatim>\<open>ble_imu_service_init\<close> leaves it: not connected, no
  notifications enabled, distinct attribute handles, and an event handler registered.
\<close>

definition example_handles :: "u16 \<Rightarrow> ble_gatts_char_handles_t" where
  "example_handles h =
     \<lparr>value_handle = h, user_desc_handle = 0, cccd_handle = h + 1, sccd_handle = 0\<rparr>"

definition example_service :: ble_imu_service_t where
  "example_service =
     \<lparr>service_handle = 0x000E, conn_handle = BLE_CONN_HANDLE_INVALID,
      quat_handles = example_handles 0x0010, accel_handles = example_handles 0x0013,
      gyro_handles = example_handles 0x0016, rate_handles = example_handles 0x0019,
      status_handles = example_handles 0x001B,
      quat_notify_enabled = False, accel_notify_enabled = False,
      gyro_notify_enabled = False, status_notify_enabled = False,
      sample_rate_ms = 10, status_flags = 0, evt_handler = True, uuid_type = 2\<rparr>"

text \<open>A SoftDevice that accepts every notification it is handed.\<close>

definition example_hvx :: "u16 \<Rightarrow> 'p ble_gatts_hvx_params_t \<Rightarrow> u32" where
  "example_hvx conn params = NRF_SUCCESS"

text \<open>A quaternion sample as the 16 bytes of four little-endian binary32 values (0, 0, 0, 1).\<close>

definition example_quat_bytes :: "u8 list" where
  "example_quat_bytes = [0, 0, 0, 0, 0, 0, 0, 0, 0, 0, 0, 0, 0, 0, 0x80, 0x3F]"

text \<open>
  The advertising module as \<^verbatim>\<open>main.c\<close> configures it (name in the advertising data, one
  vendor-specific service UUID, auto-restart), while it advertises fast.
\<close>

definition example_adv :: ble_advertising_module where
  "example_adv =
     \<lparr>m_adv_data = replicate 31 0, m_scan_rsp_data = replicate 31 0, m_adv_handle = 0,
      m_initialized = True, m_adv_mode = BLE_ADV_MODE_FAST,
      m_config =
        \<lparr>fast_interval = 160, slow_interval = 1600, fast_timeout = 3000, slow_timeout = 0,
         include_name = True, include_appearance = False, include_tx_power = False,
         uuids = [\<lparr>uuid = 0, utype = 2\<rparr>, \<lparr>uuid = 0, utype = 0\<rparr>,
                  \<lparr>uuid = 0, utype = 0\<rparr>, \<lparr>uuid = 0, utype = 0\<rparr>],
         uuid_count = 1, include_name_in_sr = False, p_manuf_data = None, manuf_data_len = 0,
         company_id = 0xFFFF, auto_restart = True\<rparr>,
      m_evt_handler = True, adv_data_len = 0, scan_rsp_data_set = False,
      scan_rsp_data_len = 0\<rparr>"

text \<open>
  A SoftDevice that holds the 11-byte device name \<^verbatim>\<open>IMU_Glasses\<close> and accepts the
  advertising set and its start, and one that refuses the start
  (\<^verbatim>\<open>NRF_ERROR_INVALID_STATE\<close>).
\<close>

definition example_sd :: softdevice where
  "example_sd =
     \<lparr>sd_appearance = Some 512, sd_name_rc = 0,
      sd_name = [0x49, 0x4D, 0x55, 0x5F, 0x47, 0x6C, 0x61, 0x73, 0x73, 0x65, 0x73] @ replicate 21 0,
      sd_name_len = 11, sd_adv_set_configure_rc = 0, sd_adv_handle = 0, sd_adv_start_rc = 0\<rparr>"

definition example_sd_refusing :: softdevice where
  "example_sd_refusing = example_sd\<lparr>sd_adv_start_rc := 8\<rparr>"

text \<open>
  The module state \<^verbatim>\<open>adv_data_build\<close> leaves from \<open>example_adv\<close>: flags, the UUID field
  header (the vendor-specific UUID itself is skipped), and the complete name, 18 bytes.
\<close>

definition example_adv_built :: ble_advertising_module where
  "example_adv_built =
     example_adv\<lparr>m_adv_data := [2, 0x01, 0x06, 3, 0x03, 12, 0x09,
                                 0x49, 0x4D, 0x55, 0x5F, 0x47, 0x6C, 0x61, 0x73, 0x73, 0x65, 0x73]
                                @ replicate 13 0,
                  adv_data_len := 18\<rparr>"

text \<open>
  The module with the TX power field and 20 bytes of manufacturer data
  (\<^verbatim>\<open>ble_advertising_manuf_data_set\<close> accepts up to 21) and no service UUID.
\<close>

definition example_adv_manuf :: ble_advertising_module where
  "example_adv_manuf =
     example_adv\<lparr>m_config := (m_config example_adv)
                    \<lparr>include_tx_power := True, uuid_count := 0,
                     p_manuf_data := Some (replicate 20 0), manuf_data_len := 20\<rparr>\<rparr>"

text \<open>
  An I2C master on which every write of at least one byte is acknowledged in full; as in
  \<^verbatim>\<open>twim_write\<close>, a write of no bytes is refused with \<^verbatim>\<open>TWIM_ERR_INVALID_PARAM\<close> (-6).
\<close>

definition example_twim_write :: "u8 \<Rightarrow> u8 list \<Rightarrow> bool \<Rightarrow> int" where
  "example_twim_write addr bytes stop = (if bytes = [] then - 6 else int (length bytes))"

text \<open>An I2C master on which the sensor does not acknowledge its address (\<^verbatim>\<open>TWIM_ERR_ANACK\<close>).\<close>

definition example_twim_nack :: "u8 \<Rightarrow> u8 list \<Rightarrow> bool \<Rightarrow> int" where
  "example_twim_nack addr bytes stop = - 1"

section \<open>Receive: empty, short and oversized announcements\<close>

lemma receive_packet_header_cases:
  assumes "twim_read hw (i2c_addr dev) 4 = (result, [b0, b1, b2, b3], hw1)" and "0 \<le> result"
  shows "announced_len [b0, b1, b2, b3] = 0 \<or> announced_len [b0, b1, b2, b3] = 0x7FFF
           \<Longrightarrow> bno085_receive_packet twim_read hw dev = (dev, 0, hw1)"
    and "0 < announced_len [b0, b1, b2, b3] \<Longrightarrow> announced_len [b0, b1, b2, b3] < 4
           \<Longrightarrow> bno085_receive_packet twim_read hw dev = (dev, BNO085_ERR_INVALID_DATA, hw1)"
    and "512 < announced_len [b0, b1, b2, b3] \<Longrightarrow> announced_len [b0, b1, b2, b3] \<noteq> 0x7FFF
           \<Longrightarrow> bno085_receive_packet twim_read hw dev = (dev, BNO085_ERR_BUFFER_OVERFLOW, hw1)"
proof -
  let ?p = "announced_len [b0, b1, b2, b3]"
  have unfold: "bno085_receive_packet twim_read hw dev =
      (if ?p = 0 \<or> ?p = 0x7FFF then (dev, 0, hw1)
       else if ?p < 4 then (dev, BNO085_ERR_INVALID_DATA, hw1)
       else if ?p > 512 then (dev, BNO085_ERR_BUFFER_OVERFLOW, hw1)
       else bno085_receive_packet twim_read hw dev)"
    using assms
    by (simp add: bno085_receive_packet_def announced_len_def SHTP_HEADER_SIZE_def Let_def)
  show "?p = 0 \<or> ?p = 0x7FFF \<Longrightarrow> bno085_receive_packet twim_read hw dev = (dev, 0, hw1)"
    using unfold by presburger
  show "0 < ?p \<Longrightarrow> ?p < 4
          \<Longrightarrow> bno085_receive_packet twim_read hw dev = (dev, BNO085_ERR_INVALID_DATA, hw1)"
  proof -
    assume a: "0 < ?p" "?p < 4"
    then have "?p \<noteq> 0" "?p \<noteq> 0x7FFF" by auto
    with a unfold show ?thesis by presburger
  qed
  show "512 < ?p \<Longrightarrow> ?p \<noteq> 0x7FFF
          \<Longrightarrow> bno085_receive_packet twim_read hw dev = (dev, BNO085_ERR_BUFFER_OVERFLOW, hw1)"
  proof -
    assume a: "512 < ?p" "?p \<noteq> 0x7FFF"
    then have "?p \<noteq> 0" "\<not> ?p < 4" by (auto simp: word_less_nat_alt)
    with a unfold show ?thesis by presburger
  qed
qed


text \<open>
  Claim C5. Once the 4-byte header has been read: an announced 15-bit length of 0 or of
  the all-ones sentinel \<^verbatim>\<open>0x7FFF\<close> makes \<^verbatim>\<open>bno085_receive_packet\<close> return 0 (no data);
  an announced length of 1, 2 or 3 makes it return \<^verbatim>\<open>BNO085_ERR_INVALID_DATA\<close>; an
  announced length above 512 (other than the sentinel) makes it return
  \<^verbatim>\<open>BNO085_ERR_BUFFER_OVERFLOW\<close>. In all three cases the device handle, and with it
  \<^verbatim>\<open>rx_buffer\<close> and \<^verbatim>\<open>rx_len\<close>, is returned unchanged.
\<close>

theorem receive_packet_length_screening:
  assumes "twim_read hw (i2c_addr dev) 4 = (result, [b0, b1, b2, b3], hw1)" and "0 \<le> result"
  shows "(announced_len [b0, b1, b2, b3] = 0 \<or> announced_len [b0, b1, b2, b3] = 0x7FFF
            \<longrightarrow> bno085_receive_packet twim_read hw dev = (dev, 0, hw1))
       \<and> (0 < announced_len [b0, b1, b2, b3] \<and> announced_len [b0, b1, b2, b3] < 4
            \<longrightarrow> bno085_receive_packet twim_read hw dev = (dev, BNO085_ERR_INVALID_DATA, hw1))
       \<and> (512 < announced_len [b0, b1, b2, b3] \<and> announced_len [b0, b1, b2, b3] \<noteq> 0x7FFF
            \<longrightarrow> bno085_receive_packet twim_read hw dev = (dev, BNO085_ERR_BUFFER_OVERFLOW, hw1))"
  using assms receive_packet_header_cases [of twim_read hw dev result b0 b1 b2 b3 hw1]
  by blast

theorem receive_packet_length_screening_witness:
  "announced_len [0xFF, 0xFF, 3, 0] = 0x7FFF
   \<and> bno085_receive_packet wire_read [0xFF, 0xFF, 3, 0] example_dev = (example_dev, 0, [])
   \<and> 0 < announced_len [2, 0x80, 3, 0] \<and> announced_len [2, 0x80, 3, 0] < 4
   \<and> bno085_receive_packet wire_read [2, 0x80, 3, 0] example_dev
        = (example_dev, BNO085_ERR_INVALID_DATA, [])
   \<and> 512 < announced_len [1, 2, 3, 0] \<and> announced_len [1, 2, 3, 0] \<noteq> 0x7FFF
   \<and> bno085_receive_packet wire_read [1, 2, 3, 0] example_dev
        = (example_dev, BNO085_ERR_BUFFER_OVERFLOW, [])"
  using receive_packet_length_screening
          [of wire_read "[0xFF, 0xFF, 3, 0]" example_dev 4 "0xFF" "0xFF" 3 0 "[]"]
        receive_packet_length_screening
          [of wire_read "[2, 0x80, 3, 0]" example_dev 4 2 "0x80" 3 0 "[]"]
        receive_packet_length_screening
          [of wire_read "[1, 2, 3, 0]" example_dev 4 1 2 3 0 "[]"]
  by (simp add: wire_read_def announced_len_def)


section \<open>Packet codec: framing round trip\<close>

lemma mask_numerals: "(0xFF :: u16) = mask 8" "(0x7F :: u16) = mask 7" "(0x7F :: u8) = mask 7"
  by (simp_all add: mask_eq_exp_minus_1)

lemma bit15_clear:
  fixes p :: u16
  assumes "p < 0x8000"
  shows "\<not> bit p 15"
proof -
  have "p < 2 ^ 15" using assms by simp
  then have "p AND mask 15 = p" by (rule less_mask_eq)
  then have "bit p 15 = bit (p AND mask 15) 15" by simp
  then show ?thesis by (simp add: bit_simps)
qed

lemma header_length_roundtrip:
  fixes p :: u16
  assumes "p < 0x8000"
  shows "ucast (ucast (p AND 0xFF) :: u8)
           OR push_bit 8 (ucast ((ucast (drop_bit 8 p AND 0x7F) :: u8) AND 0x7F)) = p"
    (is "?lhs = p")
proof (rule bit_word_eqI)
  fix n assume n: "n < LENGTH(16)"
  have b: "\<not> bit p 15" using assms by (rule bit15_clear)
  have "n < 8 \<or> (8 \<le> n \<and> n < 15) \<or> n = 15" using n by auto
  then show "bit ?lhs n = bit p n"
    unfolding mask_numerals using b
    by (auto simp: bit_simps)
qed

lemma send_packet_ok:
  assumes ch: "unat channel < 6" and len: "length payload \<le> 252"
  shows "bno085_send_packet twim_write tx0 dev channel (Some payload) (of_nat (length payload)) =
     (let seq = sequence dev ! unat channel;
          wire = [ucast ((of_nat (length payload) + 4 :: u16) AND 0xFF),
                  ucast (drop_bit 8 (of_nat (length payload) + 4 :: u16) AND 0x7F),
                  channel, seq] @ payload;
          dev' = dev\<lparr>sequence := (sequence dev)[unat channel := seq + 1]\<rparr>
      in Returns (dev',
                  if twim_write (i2c_addr dev) wire True < 0 then BNO085_ERR_I2C else BNO085_OK,
                  Some wire))"
proof -
  let ?n = "length payload"
  let ?len = "of_nat ?n :: u16"
  have ulen: "unat ?len = ?n"
    using len by (simp add: unat_of_nat)
  have upl: "unat (?len + 4) = ?n + 4"
    using len ulen by (simp add: unat_word_ariths)
  have fits: "\<not> ?len + 4 > 256"
    using upl len by (simp add: word_less_nat_alt)
  have pos: "(?len > 0) = (payload \<noteq> [])"
    using ulen by (simp add: word_less_nat_alt)
  show ?thesis
  proof (cases "payload = []")
    case True
    then show ?thesis
      using ch
      by (simp add: bno085_send_packet_def SHTP_HEADER_SIZE_def Let_def buf_write_def)
  next
    case False
    then show ?thesis
      using ch fits pos ulen upl len
      by (simp add: bno085_send_packet_def SHTP_HEADER_SIZE_def Let_def buf_write_def)
  qed
qed


lemma drop_past_header:
  "drop (4 + n) (a # b # c # d # drop (Suc (Suc (Suc (Suc 0)))) xs) = drop (4 + n) xs"
proof -
  have four: "Suc (Suc (Suc (Suc 0))) = 4" by simp
  have "drop (4 + n) (a # b # c # d # drop 4 xs) = drop n (drop 4 xs)"
    by (simp add: numeral_eq_Suc)
  then show ?thesis unfolding four by (simp add: add.commute)
qed

lemma receive_packet_loopback:
  fixes payload :: "u8 list"
  assumes len: "length payload \<le> 252" and buf: "length (rx_buffer rdev) = 512"
  shows "bno085_receive_packet wire_read
           ([ucast ((of_nat (length payload) + 4 :: u16) AND 0xFF),
             ucast (drop_bit 8 (of_nat (length payload) + 4 :: u16) AND 0x7F),
             channel, seq] @ payload) rdev =
         (rdev\<lparr>rx_buffer :=
                 [ucast ((of_nat (length payload) + 4 :: u16) AND 0xFF),
                  ucast (drop_bit 8 (of_nat (length payload) + 4 :: u16) AND 0x7F),
                  channel, seq] @ payload @ drop (4 + length payload) (rx_buffer rdev),
               rx_len := of_nat (length payload) + 4\<rparr>,
          int (length payload) + 4, [])"
proof -
  let ?n = "length payload"
  let ?p = "of_nat ?n + 4 :: u16"
  have ulen: "unat (of_nat ?n :: u16) = ?n"
    using len by (simp add: unat_of_nat)
  have up: "unat ?p = ?n + 4"
    using len ulen by (simp add: unat_word_ariths)
  have lt: "?p < 0x8000"
    using up len by (simp add: word_less_nat_alt)
  have rt: "ucast (ucast (?p AND 0xFF) :: u8)
              OR push_bit 8 (ucast ((ucast (drop_bit 8 ?p AND 0x7F) :: u8) AND 0x7F)) = ?p"
    using lt by (rule header_length_roundtrip)
  have g: "?p \<noteq> 0" "?p \<noteq> 0x7FFF" "\<not> ?p < 4" "\<not> ?p > 512"
    using up len by (auto simp: word_less_nat_alt unat_eq_zero [symmetric] simp del: unat_eq_zero
                          dest: arg_cong [where f = unat])
  have pl: "?p - 4 = of_nat ?n" by simp
  have pos: "((of_nat ?n :: u16) > 0) = (payload \<noteq> [])"
    using ulen by (simp add: word_less_nat_alt)
  have ui: "uint ?p = int ?n + 4"
    using up by (simp add: uint_nat)
  show ?thesis
  proof (cases "payload = []")
    case True
    have four: "Suc (Suc (Suc (Suc 0))) = 4" by simp
    from True show ?thesis
      using buf
      by (simp add: bno085_receive_packet_def wire_read_def SHTP_HEADER_SIZE_def Let_def
                    buf_write_def four)
  next
    case False
    show ?thesis
      unfolding bno085_receive_packet_def wire_read_def SHTP_HEADER_SIZE_def Let_def
      using False buf len
      by (simp add: rt g pl pos ulen ui buf_write_def drop_past_header del: of_nat_add)
  qed
qed


text \<open>
  Claim C2. For a channel 0..5 and a payload of 0..252 bytes (the most that fits the
  256-byte transmit buffer), \<^verbatim>\<open>bno085_send_packet\<close> hands a packet to the bus whose
  sequence byte is the channel's counter before the call; afterwards that counter is one
  larger (modulo 256, as an 8-bit word) and the other five are as before; and
  \<^verbatim>\<open>bno085_receive_packet\<close>, reading those bytes back, returns the packet length and leaves
  the same channel at offset 2, the same sequence byte at offset 3, and the same payload
  bytes from offset 4, with \<^verbatim>\<open>rx_len - 4\<close> the payload length.
\<close>

theorem framing_roundtrip:
  assumes "unat channel < 6" and "length payload \<le> 252"
    and "bno085_wf dev" and "bno085_wf rdev"
  shows "(case bno085_send_packet twim_write tx0 dev channel (Some payload) (of_nat (length payload)) of
            Returns (dev', rc, Some wire) \<Rightarrow>
              wire ! 3 = sequence dev ! unat channel
            \<and> sequence dev' ! unat channel = sequence dev ! unat channel + 1
            \<and> (\<forall>c < 6. c \<noteq> unat channel \<longrightarrow> sequence dev' ! c = sequence dev ! c)
            \<and> (case bno085_receive_packet wire_read wire rdev of
                  (rdev', n, rest) \<Rightarrow>
                    n = int (length payload) + 4
                  \<and> rx_buffer rdev' ! 2 = channel
                  \<and> rx_buffer rdev' ! 3 = sequence dev ! unat channel
                  \<and> unat (rx_len rdev' - SHTP_HEADER_SIZE) = length payload
                  \<and> take (length payload) (drop 4 (rx_buffer rdev')) = payload)
          | _ \<Rightarrow> False)"
proof -
  let ?n = "length payload"
  let ?seq = "sequence dev ! unat channel"
  let ?hdr = "[ucast ((of_nat ?n + 4 :: u16) AND 0xFF),
               ucast (drop_bit 8 (of_nat ?n + 4 :: u16) AND 0x7F), channel, ?seq]"
  let ?wire = "?hdr @ payload"
  let ?dev' = "dev\<lparr>sequence := (sequence dev)[unat channel := ?seq + 1]\<rparr>"
  let ?rdev' = "rdev\<lparr>rx_buffer := ?hdr @ payload @ drop (4 + ?n) (rx_buffer rdev),
                      rx_len := of_nat ?n + 4\<rparr>"
  have l6: "length (sequence dev) = 6" and l512: "length (rx_buffer rdev) = 512"
    using assms(3,4) by (simp_all add: bno085_wf_def)
  have send: "bno085_send_packet twim_write tx0 dev channel (Some payload) (of_nat ?n)
      = Returns (?dev', if twim_write (i2c_addr dev) ?wire True < 0 then BNO085_ERR_I2C
                        else BNO085_OK, Some ?wire)"
    using send_packet_ok [OF assms(1,2), of twim_write tx0 dev] by (simp add: Let_def)
  have recv: "bno085_receive_packet wire_read ?wire rdev = (?rdev', int ?n + 4, [])"
    using receive_packet_loopback [OF assms(2) l512, of channel ?seq] by simp
  have ulen: "unat (of_nat ?n :: u16) = ?n"
    using assms(2) by (simp add: unat_of_nat)
  have a: "?wire ! 3 = ?seq" by simp
  have b: "sequence ?dev' ! unat channel = ?seq + 1"
    using assms(1) l6 by simp
  have c: "\<forall>c < 6. c \<noteq> unat channel \<longrightarrow> sequence ?dev' ! c = sequence dev ! c"
    by simp
  have d: "rx_buffer ?rdev' ! 2 = channel" "rx_buffer ?rdev' ! 3 = ?seq" by simp_all
  have e: "unat (rx_len ?rdev' - SHTP_HEADER_SIZE) = ?n"
    using ulen by (simp add: SHTP_HEADER_SIZE_def)
  have f: "take ?n (drop 4 (rx_buffer ?rdev')) = payload" by simp
  have recv': "bno085_receive_packet wire_read
                 (ucast ((of_nat ?n + 4 :: u16) AND 0xFF)
                    # ucast (drop_bit 8 (of_nat ?n + 4 :: u16) AND 0x7F)
                    # channel # ?seq # payload) rdev = (?rdev', int ?n + 4, [])"
    using recv by simp
  have g: "(case bno085_receive_packet wire_read ?wire rdev of
              (rdev', n, rest) \<Rightarrow>
                 n = int ?n + 4 \<and> rx_buffer rdev' ! 2 = channel \<and> rx_buffer rdev' ! 3 = ?seq
               \<and> unat (rx_len rdev' - SHTP_HEADER_SIZE) = ?n
               \<and> take ?n (drop 4 (rx_buffer rdev')) = payload)"
    unfolding recv using d e f by simp
  show ?thesis
    unfolding send using a b c g by simp
qed

theorem framing_roundtrip_witness:
  "unat (2 :: u8) < 6 \<and> length [0xF9, 0 :: u8] \<le> 252 \<and> bno085_wf example_dev
   \<and> bno085_send_packet example_twim_write (replicate 256 0) example_dev 2 (Some [0xF9, 0]) 2
        = Returns (example_dev\<lparr>sequence := [0, 0, 8, 0, 0, 0]\<rparr>, BNO085_OK,
                   Some [6, 0, 2, 7, 0xF9, 0])
   \<and> bno085_receive_packet wire_read [6, 0, 2, 7, 0xF9, 0] example_dev
        = (example_dev\<lparr>rx_buffer := [6, 0, 2, 7, 0xF9, 0] @ replicate 506 0, rx_len := 6\<rparr>, 6, [])"
  using framing_roundtrip [of 2 "[0xF9, 0]" example_dev example_dev example_twim_write
                              "replicate 256 0"]
  by (simp add: bno085_wf_def example_dev_def example_twim_write_def BNO085_OK_def
                bno085_send_packet_def bno085_receive_packet_def wire_read_def buf_write_def
                SHTP_HEADER_SIZE_def Let_def)


section \<open>Packet codec: the sequence counter and the size check\<close>

text \<open>
  While \<^verbatim>\<open>len + 4\<close> does not wrap around 16 bits: a packet that fits is attempted, and the
  channel's counter advances whether or not the I2C write succeeds; a packet that does
  not fit is refused with all counters untouched.
\<close>

lemma send_packet_counts_attempts:
  assumes "unat channel < 6" and "unat len + 4 \<le> 256"
    and "case data of None \<Rightarrow> True | Some bytes \<Rightarrow> unat len \<le> length bytes"
  shows "\<exists>wire. bno085_send_packet twim_write tx0 dev channel data len =
           Returns (dev\<lparr>sequence := (sequence dev)[unat channel := sequence dev ! unat channel + 1]\<rparr>,
                    if twim_write (i2c_addr dev) wire True < 0 then BNO085_ERR_I2C else BNO085_OK,
                    Some wire)"
proof -
  have upl: "unat (len + 4) = unat len + 4"
    using assms(2) by (simp add: unat_word_ariths)
  have fits: "\<not> len + 4 > 256"
    using upl assms(2) by (simp add: word_less_nat_alt)
  show ?thesis
    using assms fits
    by (cases data) (simp_all add: bno085_send_packet_def SHTP_HEADER_SIZE_def Let_def)
qed

lemma send_packet_overflow_in_range:
  assumes "256 < unat len + 4" and "unat len + 4 < 65536"
  shows "bno085_send_packet twim_write tx0 dev channel data len =
           Returns (dev, BNO085_ERR_BUFFER_OVERFLOW, None)"
proof -
  have upl: "unat (len + 4) = unat len + 4"
    using assms(2) by (simp add: unat_word_ariths)
  have "len + 4 > 256"
    using upl assms(1) by (simp add: word_less_nat_alt)
  then show ?thesis
    by (simp add: bno085_send_packet_def SHTP_HEADER_SIZE_def)
qed

text \<open>
  Claim C10. For a channel 0..5 and a payload buffer that holds the \<^verbatim>\<open>len\<close> bytes asked
  for: when the packet of \<^verbatim>\<open>len + 4\<close> bytes fits the 256-byte transmit buffer, the call
  hands it to the bus, that channel's counter is one larger afterwards and the other five
  are as before, and the call returns \<^verbatim>\<open>BNO085_ERR_I2C\<close> when the I2C write fails (and
  \<^verbatim>\<open>BNO085_OK\<close> otherwise): the counter advances on the attempt. When the packet does not
  fit, the call returns \<^verbatim>\<open>BNO085_ERR_BUFFER_OVERFLOW\<close> and the handle, with every counter,
  is unchanged. The packet length is the 16-bit \<^verbatim>\<open>packet_len\<close> of the source, so the second
  half is stated for lengths whose sum \<^verbatim>\<open>len + 4\<close> is below 65536.
\<close>

theorem send_packet_sequence_counter:
  assumes "unat channel < 6" and "bno085_wf dev"
    and "case data of None \<Rightarrow> True | Some bytes \<Rightarrow> unat len \<le> length bytes"
  shows "(unat len + 4 \<le> 256 \<longrightarrow>
            (case bno085_send_packet twim_write tx0 dev channel data len of
               Returns (dev', rc, Some wire) \<Rightarrow>
                 sequence dev' ! unat channel = sequence dev ! unat channel + 1
               \<and> (\<forall>c < 6. c \<noteq> unat channel \<longrightarrow> sequence dev' ! c = sequence dev ! c)
               \<and> rc = (if twim_write (i2c_addr dev) wire True < 0
                       then BNO085_ERR_I2C else BNO085_OK)
             | _ \<Rightarrow> False))
       \<and> (256 < unat len + 4 \<and> unat len + 4 < 65536 \<longrightarrow>
            bno085_send_packet twim_write tx0 dev channel data len
              = Returns (dev, BNO085_ERR_BUFFER_OVERFLOW, None))"
proof (intro conjI impI)
  assume fits: "unat len + 4 \<le> 256"
  have l6: "length (sequence dev) = 6"
    using assms(2) by (simp add: bno085_wf_def)
  from send_packet_counts_attempts [OF assms(1) fits assms(3), of twim_write tx0 dev]
  obtain wire where w: "bno085_send_packet twim_write tx0 dev channel data len =
      Returns (dev\<lparr>sequence := (sequence dev)[unat channel := sequence dev ! unat channel + 1]\<rparr>,
               if twim_write (i2c_addr dev) wire True < 0 then BNO085_ERR_I2C else BNO085_OK,
               Some wire)"
    by blast
  show "case bno085_send_packet twim_write tx0 dev channel data len of
          Returns (dev', rc, Some wire) \<Rightarrow>
            sequence dev' ! unat channel = sequence dev ! unat channel + 1
          \<and> (\<forall>c < 6. c \<noteq> unat channel \<longrightarrow> sequence dev' ! c = sequence dev ! c)
          \<and> rc = (if twim_write (i2c_addr dev) wire True < 0 then BNO085_ERR_I2C else BNO085_OK)
        | _ \<Rightarrow> False"
    unfolding w using assms(1) l6 by simp
next
  assume "256 < unat len + 4 \<and> unat len + 4 < 65536"
  then show "bno085_send_packet twim_write tx0 dev channel data len
               = Returns (dev, BNO085_ERR_BUFFER_OVERFLOW, None)"
    using send_packet_overflow_in_range [of len twim_write tx0 dev channel data] by blast
qed

theorem send_packet_sequence_counter_witness:
  "unat (2 :: u8) < 6 \<and> bno085_wf example_dev \<and> unat (2 :: u16) + 4 \<le> 256
   \<and> bno085_send_packet example_twim_nack (replicate 256 0) example_dev 2 (Some [0xF9, 0]) 2
        = Returns (example_dev\<lparr>sequence := [0, 0, 8, 0, 0, 0]\<rparr>, BNO085_ERR_I2C,
                   Some [6, 0, 2, 7, 0xF9, 0])
   \<and> 256 < unat (253 :: u16) + 4 \<and> unat (253 :: u16) + 4 < 65536
   \<and> bno085_send_packet example_twim_nack (replicate 256 0) example_dev 2 None 253
        = Returns (example_dev, BNO085_ERR_BUFFER_OVERFLOW, None)"
  using send_packet_sequence_counter
          [of 2 example_dev 2 "Some [0xF9, 0]" example_twim_nack "replicate 256 0"]
        send_packet_sequence_counter
          [of 2 example_dev 253 None example_twim_nack "replicate 256 0"]
  by (simp add: bno085_wf_def example_dev_def example_twim_nack_def BNO085_ERR_I2C_def
                bno085_send_packet_def buf_write_def SHTP_HEADER_SIZE_def Let_def)

text \<open>
  The four lengths 65532..65535 lie outside that range: \<^verbatim>\<open>packet_len = len + 4\<close> wraps to
  0..3 in \<^verbatim>\<open>uint16_t\<close> and passes the size check. No caller passes such a length (the three
  call sites pass 1, 2 and 17).
\<close>

lemma send_packet_length_wraps:
  "bno085_send_packet example_twim_write (replicate 256 0) example_dev 2
       (Some (replicate 65532 0)) 0xFFFC = Undefined
   \<and> bno085_send_packet example_twim_write (replicate 256 0) example_dev 2 None 0xFFFC =
       Returns (example_dev\<lparr>sequence := [0, 0, 8, 0, 0, 0]\<rparr>, BNO085_ERR_I2C, Some [])"
  by (simp add: bno085_send_packet_def SHTP_HEADER_SIZE_def Let_def example_dev_def
                example_twim_write_def buf_write_def BNO085_ERR_I2C_def)

section \<open>Decoder: short payloads and unknown report ids\<close>

lemmas sh2_ids = SH2_ACCELEROMETER_def SH2_GYROSCOPE_def SH2_MAGNETOMETER_def
  SH2_LINEAR_ACCELERATION_def SH2_ROTATION_VECTOR_def SH2_GRAVITY_def
  SH2_GAME_ROTATION_VECTOR_def SH2_GEOMAGNETIC_ROTATION_def SH2_STEP_COUNTER_def
  SH2_STABILITY_CLASSIFIER_def

lemma payload_len_unat:
  "SHTP_HEADER_SIZE \<le> r \<Longrightarrow> unat (r - SHTP_HEADER_SIZE) = unat r - 4"
  by (simp add: SHTP_HEADER_SIZE_def unat_sub)

lemma payload_len_less:
  "SHTP_HEADER_SIZE \<le> r \<Longrightarrow> n < 65536 \<Longrightarrow> (r - SHTP_HEADER_SIZE < of_nat n) = (unat r - 4 < n)"
  by (simp add: word_less_nat_alt payload_len_unat unat_of_nat)

lemma min_len_cases:
  assumes "report_min_len rid = Some n"
  shows "(n = 13 \<and> (rid = 0x05 \<or> rid = 0x08 \<or> rid = 0x09))
       \<or> (n = 11 \<and> (rid = 0x01 \<or> rid = 0x04 \<or> rid = 0x06 \<or> rid = 0x02 \<or> rid = 0x03))
       \<or> (n = 9 \<and> rid = 0x11) \<or> (n = 6 \<and> rid = 0x13)"
  using assms unfolding report_min_len_def sh2_ids
  by (simp split: if_splits)

lemma min_len_None:
  assumes "report_min_len rid = None"
  shows "rid \<noteq> 0x05 \<and> rid \<noteq> 0x08 \<and> rid \<noteq> 0x09 \<and> rid \<noteq> 0x01 \<and> rid \<noteq> 0x04 \<and> rid \<noteq> 0x06
       \<and> rid \<noteq> 0x02 \<and> rid \<noteq> 0x03 \<and> rid \<noteq> 0x11 \<and> rid \<noteq> 0x13"
  using assms unfolding report_min_len_def sh2_ids
  by (simp split: if_splits)

lemma parse_short_at:
  assumes ch: "rx_buffer dev ! 2 = 3"
    and rid: "rx_buffer dev ! 4 = rid"
    and known: "rid = 0x05 \<or> rid = 0x08 \<or> rid = 0x09 \<or> rid = 0x01 \<or> rid = 0x04 \<or> rid = 0x06
                  \<or> rid = 0x02 \<or> rid = 0x03 \<or> rid = 0x11 \<or> rid = 0x13"
    and short: "rx_len dev - 4 < (if rid = 0x05 \<or> rid = 0x08 \<or> rid = 0x09 then 14
                   else if rid = 0x11 then 9 else if rid = 0x13 then 6 else 10)"
  shows "bno085_parse_sensor_report rnd dev data = (data, BNO085_ERR_INVALID_DATA)"
  using known
  apply (elim disjE)
  using ch rid short
  by (simp_all add: bno085_parse_sensor_report_def Let_def sh2_ids SHTP_HEADER_SIZE_def
                    SHTP_CHANNEL_REPORTS_def)


text \<open>
  Where the decoder's length checks agree with the layout: a payload shorter than its
  report's length is refused with the cached data untouched, except a 3-axis vector
  report of exactly 10 bytes.
\<close>

lemma parse_short_payload_rejected:
  assumes "rx_buffer dev ! 2 = SHTP_CHANNEL_REPORTS"
    and "SHTP_HEADER_SIZE \<le> rx_len dev"
    and "report_min_len (rx_buffer dev ! 4) = Some n"
    and "unat (rx_len dev) - 4 < n"
    and "\<not> (n = 11 \<and> unat (rx_len dev) - 4 = 10)"
  shows "bno085_parse_sensor_report rnd dev data = (data, BNO085_ERR_INVALID_DATA)"
proof -
  let ?rid = "rx_buffer dev ! 4"
  have l: "\<And>k. k < 65536 \<Longrightarrow> (rx_len dev - 4 < of_nat k) = (unat (rx_len dev) - 4 < k)"
    using payload_len_less [OF assms(2)] by (simp add: SHTP_HEADER_SIZE_def)
  have w: "(rx_len dev - 4 < 14) = (unat (rx_len dev) - 4 < 14)"
          "(rx_len dev - 4 < 10) = (unat (rx_len dev) - 4 < 10)"
          "(rx_len dev - 4 < 9) = (unat (rx_len dev) - 4 < 9)"
          "(rx_len dev - 4 < 6) = (unat (rx_len dev) - 4 < 6)"
    using l [of 14] l [of 10] l [of 9] l [of 6] by simp_all
  from min_len_cases [OF assms(3)] assms(4,5)
  have known: "?rid = 0x05 \<or> ?rid = 0x08 \<or> ?rid = 0x09 \<or> ?rid = 0x01 \<or> ?rid = 0x04 \<or> ?rid = 0x06
                  \<or> ?rid = 0x02 \<or> ?rid = 0x03 \<or> ?rid = 0x11 \<or> ?rid = 0x13"
    and short: "rx_len dev - 4 < (if ?rid = 0x05 \<or> ?rid = 0x08 \<or> ?rid = 0x09 then 14
                   else if ?rid = 0x11 then 9 else if ?rid = 0x13 then 6 else 10)"
    by (auto simp: w)
  show ?thesis
    by (rule parse_short_at [OF _ refl known short])
       (use assms(1) in \<open>simp add: SHTP_CHANNEL_REPORTS_def\<close>)
qed

lemma ten_byte_accel_buffers:
  "rx_buffer (example_rx ten_byte_accel_packet) = ten_byte_accel_packet @ replicate 498 0"
  "rx_buffer (example_rx_stale ten_byte_accel_packet) = ten_byte_accel_packet @ replicate 498 0xFF"
  "rx_len (example_rx ten_byte_accel_packet) = 14"
  "rx_len (example_rx_stale ten_byte_accel_packet) = 14"
  by (simp_all add: example_rx_def example_rx_stale_def example_dev_def buf_write_def
                    ten_byte_accel_packet_def)

text \<open>
  Claim C6 at an accelerometer report of 10 payload bytes on the input-reports channel.
  The report's three fields end at \<^verbatim>\<open>payload[10]\<close>, so 10 bytes are one short; the check
  \<^verbatim>\<open>payload_len < 10\<close> lets them through. The decoder returns the report id 1, not
  \<^verbatim>\<open>BNO085_ERR_INVALID_DATA\<close>, and overwrites the cached accelerometer sample with a z
  whose high byte is whatever \<^verbatim>\<open>rx_buffer[14]\<close> held before: 0 over a zeroed buffer, -1
  over a buffer of \<^verbatim>\<open>0xFF\<close> bytes.
\<close>

theorem parse_ten_byte_vector_is_partial:
  "report_min_len SH2_ACCELEROMETER = Some 11
   \<and> unat (rx_len (example_rx ten_byte_accel_packet)) - 4 = 10
   \<and> bno085_parse_sensor_report (\<lambda>x. x) (example_rx ten_byte_accel_packet) example_data =
       (example_data\<lparr>accelerometer := \<lparr>vec_x = 1, vec_y = 2, vec_z = 0, accuracy = 3\<rparr>,
                     report_id := 1\<rparr>, 1)
   \<and> bno085_parse_sensor_report (\<lambda>x. x) (example_rx_stale ten_byte_accel_packet) example_data =
       (example_data\<lparr>accelerometer := \<lparr>vec_x = 1, vec_y = 2, vec_z = - 1, accuracy = 3\<rparr>,
                     report_id := 1\<rparr>, 1)"
  unfolding bno085_parse_sensor_report_def ten_byte_accel_buffers
  by (simp add: report_min_len_def sh2_ids ten_byte_accel_packet_def Let_def
                SHTP_CHANNEL_REPORTS_def SHTP_HEADER_SIZE_def decode_vector_def
                SHTP_Q_TO_FLOAT_def le16_def SHTP_Q_ACCELEROMETER_def)

text \<open>
  Claim C7. A received packet on the input-reports channel with a payload of at least
  5 bytes whose first byte is not a report id the decoder handles makes
  \<^verbatim>\<open>bno085_parse_sensor_report\<close> return 0, with the cached sensor data unchanged.
\<close>

theorem parse_unknown_report_is_noop:
  assumes "rx_buffer dev ! 2 = SHTP_CHANNEL_REPORTS"
    and "SHTP_HEADER_SIZE \<le> rx_len dev"
    and "5 \<le> unat (rx_len dev) - 4"
    and "report_min_len (rx_buffer dev ! 4) = None"
  shows "bno085_parse_sensor_report rnd dev data = (data, 0)"
proof -
  have l5: "\<not> rx_len dev - 4 < 5"
    using payload_len_less [OF assms(2), of 5] assms(3) by (simp add: SHTP_HEADER_SIZE_def)
  show ?thesis
    using assms(1) l5 min_len_None [OF assms(4)]
    by (simp add: bno085_parse_sensor_report_def Let_def sh2_ids SHTP_HEADER_SIZE_def
                  SHTP_CHANNEL_REPORTS_def)
qed

theorem parse_unknown_report_is_noop_witness:
  "rx_buffer (example_rx unknown_id_packet) ! 2 = SHTP_CHANNEL_REPORTS
   \<and> SHTP_HEADER_SIZE \<le> rx_len (example_rx unknown_id_packet)
   \<and> 5 \<le> unat (rx_len (example_rx unknown_id_packet)) - 4
   \<and> report_min_len (rx_buffer (example_rx unknown_id_packet) ! 4) = None
   \<and> bno085_parse_sensor_report (\<lambda>x. x) (example_rx unknown_id_packet) example_data
        = (example_data, 0)"
  using parse_unknown_report_is_noop
          [of "example_rx unknown_id_packet" "\<lambda>x. x" example_data]
  by (simp add: example_rx_def example_dev_def buf_write_def unknown_id_packet_def
                report_min_len_def sh2_ids SHTP_CHANNEL_REPORTS_def SHTP_HEADER_SIZE_def)

section \<open>Decoder: fixed-point conversion\<close>

















section \<open>BLE IMU service: notify gating, connection reset, rate write\<close>

text \<open>
  Claim C1 as stated fails: without a connection a notify call does not return
  \<^verbatim>\<open>NRF_SUCCESS\<close>. Here the quaternion notify on a service that is not connected.
\<close>

theorem notify_without_connection_counterexample:
  "fst (ble_imu_notify_quaternion example_hvx (Some example_service) (Some example_quat_bytes))
     \<noteq> NRF_SUCCESS"
  by (simp add: ble_imu_notify_quaternion_def example_service_def NRF_SUCCESS_def
                NRF_ERROR_INVALID_STATE_def)

text \<open>
  Claim C1, amended. For each of the four characteristics, a notify call with non-NULL
  arguments makes no call to \<^verbatim>\<open>sd_ble_gatts_hvx\<close> and returns
  \<^verbatim>\<open>NRF_ERROR_INVALID_STATE\<close> when there is no connection, and \<^verbatim>\<open>NRF_SUCCESS\<close> when there
  is a connection and that characteristic's notify flag is off.
\<close>

theorem notify_gating:
  "(conn_handle s = BLE_CONN_HANDLE_INVALID \<longrightarrow>
       ble_imu_notify_quaternion hvx (Some s) (Some d) = (NRF_ERROR_INVALID_STATE, [])
     \<and> ble_imu_notify_accelerometer hvx (Some s) (Some d) = (NRF_ERROR_INVALID_STATE, [])
     \<and> ble_imu_notify_gyroscope hvx (Some s) (Some d) = (NRF_ERROR_INVALID_STATE, [])
     \<and> ble_imu_notify_status hvx8 (Some s) st = (NRF_ERROR_INVALID_STATE, Some s, []))
 \<and> (conn_handle s \<noteq> BLE_CONN_HANDLE_INVALID \<longrightarrow>
       (\<not> quat_notify_enabled s \<longrightarrow>
          ble_imu_notify_quaternion hvx (Some s) (Some d) = (NRF_SUCCESS, []))
     \<and> (\<not> accel_notify_enabled s \<longrightarrow>
          ble_imu_notify_accelerometer hvx (Some s) (Some d) = (NRF_SUCCESS, []))
     \<and> (\<not> gyro_notify_enabled s \<longrightarrow>
          ble_imu_notify_gyroscope hvx (Some s) (Some d) = (NRF_SUCCESS, []))
     \<and> (\<not> status_notify_enabled s \<longrightarrow>
          ble_imu_notify_status hvx8 (Some s) st = (NRF_SUCCESS, Some (s\<lparr>status_flags := st\<rparr>), [])))"
  by (simp add: ble_imu_notify_quaternion_def ble_imu_notify_accelerometer_def
                ble_imu_notify_gyroscope_def ble_imu_notify_status_def Let_def)

theorem notify_gating_witness:
  "conn_handle example_service = BLE_CONN_HANDLE_INVALID
   \<and> ble_imu_notify_quaternion example_hvx (Some example_service) (Some example_quat_bytes)
        = (NRF_ERROR_INVALID_STATE, [])
   \<and> ble_imu_notify_status example_hvx (Some example_service) 5
        = (NRF_ERROR_INVALID_STATE, Some example_service, [])
   \<and> conn_handle (example_service\<lparr>conn_handle := 0\<rparr>) \<noteq> BLE_CONN_HANDLE_INVALID
   \<and> \<not> quat_notify_enabled (example_service\<lparr>conn_handle := 0\<rparr>)
   \<and> ble_imu_notify_quaternion example_hvx (Some (example_service\<lparr>conn_handle := 0\<rparr>))
        (Some example_quat_bytes) = (NRF_SUCCESS, [])
   \<and> ble_imu_notify_accelerometer example_hvx (Some (example_service\<lparr>conn_handle := 0\<rparr>))
        (Some example_quat_bytes) = (NRF_SUCCESS, [])
   \<and> ble_imu_notify_gyroscope example_hvx (Some (example_service\<lparr>conn_handle := 0\<rparr>))
        (Some example_quat_bytes) = (NRF_SUCCESS, [])
   \<and> ble_imu_notify_status example_hvx (Some (example_service\<lparr>conn_handle := 0\<rparr>)) 5
        = (NRF_SUCCESS, Some (example_service\<lparr>conn_handle := 0, status_flags := 5\<rparr>), [])"
  using notify_gating [of example_service example_hvx example_quat_bytes example_hvx 5]
        notify_gating [of "example_service\<lparr>conn_handle := 0\<rparr>" example_hvx example_quat_bytes
                          example_hvx 5]
  by (simp add: example_service_def BLE_CONN_HANDLE_INVALID_def)

text \<open>
  Claim C3. Whatever the service structure holds before: after a Connected event all four
  notify flags are off (and the connection handle is the event's); after a Disconnected
  event all four notify flags are off and the connection handle is \<^verbatim>\<open>0xFFFF\<close>.
\<close>

theorem connect_disconnect_reset:
  "(\<exists>s'. fst (ble_imu_service_on_ble_evt (Some s) (Some (BLE_GAP_EVT_CONNECTED h))) = Some s'
         \<and> \<not> quat_notify_enabled s' \<and> \<not> accel_notify_enabled s'
         \<and> \<not> gyro_notify_enabled s' \<and> \<not> status_notify_enabled s'
         \<and> conn_handle s' = h)
 \<and> (\<exists>s'. fst (ble_imu_service_on_ble_evt (Some s) (Some (BLE_GAP_EVT_DISCONNECTED h))) = Some s'
         \<and> \<not> quat_notify_enabled s' \<and> \<not> accel_notify_enabled s'
         \<and> \<not> gyro_notify_enabled s' \<and> \<not> status_notify_enabled s'
         \<and> conn_handle s' = 0xFFFF)"
  by (simp add: ble_imu_service_on_ble_evt_def Let_def BLE_CONN_HANDLE_INVALID_def)

lemma call_evt_handler_type:
  "e \<in> set (call_evt_handler s t d) \<Longrightarrow> evt_type e = t"
  by (auto simp: call_evt_handler_def split: if_splits)

lemma on_write_out_of_range:
  assumes "wr_len w = 2" and "wr_data w = [lo, hi]"
    and "le16 lo hi = 0 \<or> 1000 < le16 lo hi"
  shows "sample_rate_ms (fst (on_write s w)) = sample_rate_ms s"
    and "\<forall>e \<in> set (snd (on_write s w)). evt_type e \<noteq> BLE_IMU_EVT_RATE_WRITE"
proof -
  have r: "\<not> (1 \<le> le16 lo hi \<and> le16 lo hi \<le> 1000)"
    using assms(3) by (auto simp: word_le_nat_alt word_less_nat_alt)
  show "sample_rate_ms (fst (on_write s w)) = sample_rate_ms s"
    using assms(1,2) r unfolding on_write_def le16_def Let_def by auto
  show "\<forall>e \<in> set (snd (on_write s w)). evt_type e \<noteq> BLE_IMU_EVT_RATE_WRITE"
    using assms(1,2) r unfolding on_write_def le16_def Let_def
    by (auto dest!: call_evt_handler_type split: if_splits)
qed

lemma on_write_in_range:
  assumes "wr_handle w = value_handle (rate_handles s)" and "wr_len w = 2"
    and "wr_data w = [lo, hi]"
    and "1 \<le> le16 lo hi" and "le16 lo hi \<le> 1000"
    and "wr_handle w \<noteq> cccd_handle (quat_handles s)"
    and "wr_handle w \<noteq> cccd_handle (accel_handles s)"
    and "wr_handle w \<noteq> cccd_handle (gyro_handles s)"
    and "wr_handle w \<noteq> cccd_handle (status_handles s)"
  shows "on_write s w =
           (s\<lparr>sample_rate_ms := le16 lo hi\<rparr>,
            if evt_handler s
            then [\<lparr>evt_type = BLE_IMU_EVT_RATE_WRITE, evt_conn_handle = conn_handle s,
                   evt_data = Rate_ms (le16 lo hi)\<rparr>]
            else [])"
  using assms unfolding on_write_def le16_def Let_def call_evt_handler_def by simp

text \<open>
  Claim C4. A 2-byte write to the value handle of the sample-rate characteristic:
  a little-endian value of 0 or above 1000 leaves \<^verbatim>\<open>sample_rate_ms\<close> as it was and no
  rate-write event reaches the handler; a value within 1..1000 becomes \<^verbatim>\<open>sample_rate_ms\<close>
  and one rate-write event carrying it goes to a registered handler. That the write is
  on the rate characteristic means that its handle is none of the four CCCD handles
  (the attribute table gives every attribute its own handle).
\<close>

theorem rate_write_range:
  assumes "wr_handle w = value_handle (rate_handles s)" and "wr_len w = 2"
    and "wr_data w = [lo, hi]"
  shows "(le16 lo hi = 0 \<or> 1000 < le16 lo hi \<longrightarrow>
            sample_rate_ms (fst (on_write s w)) = sample_rate_ms s
          \<and> (\<forall>e \<in> set (snd (on_write s w)). evt_type e \<noteq> BLE_IMU_EVT_RATE_WRITE))
       \<and> (1 \<le> le16 lo hi \<and> le16 lo hi \<le> 1000
          \<and> wr_handle w \<noteq> cccd_handle (quat_handles s)
          \<and> wr_handle w \<noteq> cccd_handle (accel_handles s)
          \<and> wr_handle w \<noteq> cccd_handle (gyro_handles s)
          \<and> wr_handle w \<noteq> cccd_handle (status_handles s) \<longrightarrow>
            sample_rate_ms (fst (on_write s w)) = le16 lo hi
          \<and> snd (on_write s w) =
              (if evt_handler s
               then [\<lparr>evt_type = BLE_IMU_EVT_RATE_WRITE, evt_conn_handle = conn_handle s,
                      evt_data = Rate_ms (le16 lo hi)\<rparr>]
               else []))"
  using assms on_write_out_of_range [of w lo hi s] on_write_in_range [of w s lo hi]
  by simp

theorem rate_write_range_witness:
  "le16 0xE9 0x03 = 1001 \<and> 1000 < le16 0xE9 0x03
   \<and> sample_rate_ms (fst (on_write example_service
        \<lparr>wr_handle = 0x0019, wr_len = 2, wr_data = [0xE9, 0x03]\<rparr>)) = 10
   \<and> le16 0 0 = 0
   \<and> sample_rate_ms (fst (on_write example_service
        \<lparr>wr_handle = 0x0019, wr_len = 2, wr_data = [0, 0]\<rparr>)) = 10
   \<and> le16 0xE8 0x03 = 1000 \<and> 1 \<le> le16 0xE8 0x03 \<and> le16 0xE8 0x03 \<le> 1000
   \<and> sample_rate_ms (fst (on_write example_service
        \<lparr>wr_handle = 0x0019, wr_len = 2, wr_data = [0xE8, 0x03]\<rparr>)) = 1000
   \<and> snd (on_write example_service \<lparr>wr_handle = 0x0019, wr_len = 2, wr_data = [0xE8, 0x03]\<rparr>)
        = [\<lparr>evt_type = BLE_IMU_EVT_RATE_WRITE, evt_conn_handle = 0xFFFF, evt_data = Rate_ms 1000\<rparr>]"
  using rate_write_range [of "\<lparr>wr_handle = 0x0019, wr_len = 2, wr_data = [0xE9, 0x03]\<rparr>"
                             example_service "0xE9" "0x03"]
        rate_write_range [of "\<lparr>wr_handle = 0x0019, wr_len = 2, wr_data = [0, 0]\<rparr>"
                             example_service 0 0]
        rate_write_range [of "\<lparr>wr_handle = 0x0019, wr_len = 2, wr_data = [0xE8, 0x03]\<rparr>"
                             example_service "0xE8" "0x03"]
  by (simp add: example_service_def example_handles_def le16_def BLE_CONN_HANDLE_INVALID_def)

section \<open>Advertising policy: mode transitions\<close>

lemma adv_data_build_fields:
  assumes "adv_data_build sd m = Returns m1"
  shows "m_adv_mode m1 = m_adv_mode m \<and> m_evt_handler m1 = m_evt_handler m
       \<and> m_config m1 = m_config m \<and> m_initialized m1 = m_initialized m
       \<and> m_adv_handle m1 = m_adv_handle m"
  using assms
  by (auto simp: adv_data_build_def obind_def split: outcome.splits)

lemma example_adv_build:
  "adv_data_build example_sd example_adv = Returns example_adv_built"
  by code_simp

text \<open>
  \<^verbatim>\<open>adv_data_build\<close> can leave its buffer. With flags, TX power and 20 bytes of
  manufacturer data \<^verbatim>\<open>len\<close> is 30 when the name is reached; the 11-byte name does not fit,
  \<^verbatim>\<open>available = 31 - 30 - 2\<close> wraps to 255, and the second byte of the shortened-name
  field is written at index 31. The transitions below are stated for payloads that are
  built within the buffers.
\<close>

lemma adv_data_build_overrun:
  "adv_data_build example_sd example_adv_manuf = Undefined"
  by code_simp

text \<open>
  Claim C8, as claimed, fails when the SoftDevice refuses the restart: the module is in
  Fast mode, the payload is rebuilt within its buffer, \<^verbatim>\<open>sd_ble_gap_adv_start\<close> returns
  \<^verbatim>\<open>NRF_ERROR_INVALID_STATE\<close>, and after the terminated-with-timeout event the mode is not
  Slow.
\<close>

theorem fast_timeout_counterexample:
  "m_adv_mode example_adv = BLE_ADV_MODE_FAST
   \<and> adv_data_build example_sd_refusing example_adv = Returns example_adv_built
   \<and> mode_after (ble_advertising_on_ble_evt example_sd_refusing example_adv
                   (Some (BLE_GAP_EVT_ADV_SET_TERMINATED 0x00))) \<noteq> Some BLE_ADV_MODE_SLOW"
  by code_simp

text \<open>
  Claim C8, amended. When a terminated event with the timeout reason (\<^verbatim>\<open>0x00\<close>) arrives in
  Fast mode and the advertising payload is rebuilt within its buffers, the handler, if one
  is registered, receives the fast-timeout notification exactly once, and if the
  SoftDevice accepts the slow advertising set and its start, the mode becomes Slow. A
  terminated-with-timeout event in Slow mode makes the mode Idle, with exactly one
  slow-timeout notification. A Connected event makes the mode Idle, whatever the mode was.
\<close>

theorem advertising_mode_transitions:
  "(m_adv_mode m = BLE_ADV_MODE_FAST \<and> adv_data_build sd m = Returns m1 \<longrightarrow>
      calls_after (ble_advertising_on_ble_evt sd m (Some (BLE_GAP_EVT_ADV_SET_TERMINATED 0x00)))
        = Some (if m_evt_handler m then [(BLE_ADV_EVT_FAST_TIMEOUT, BLE_ADV_MODE_FAST)] else [])
      \<and> (sd_adv_set_configure_rc sd = NRF_SUCCESS \<and> sd_adv_start_rc sd = NRF_SUCCESS \<longrightarrow>
           mode_after (ble_advertising_on_ble_evt sd m (Some (BLE_GAP_EVT_ADV_SET_TERMINATED 0x00)))
             = Some BLE_ADV_MODE_SLOW))
   \<and> (m_adv_mode m = BLE_ADV_MODE_SLOW \<longrightarrow>
        mode_after (ble_advertising_on_ble_evt sd m (Some (BLE_GAP_EVT_ADV_SET_TERMINATED 0x00)))
          = Some BLE_ADV_MODE_IDLE
        \<and> calls_after (ble_advertising_on_ble_evt sd m (Some (BLE_GAP_EVT_ADV_SET_TERMINATED 0x00)))
          = Some (if m_evt_handler m then [(BLE_ADV_EVT_SLOW_TIMEOUT, BLE_ADV_MODE_IDLE)] else []))
   \<and> mode_after (ble_advertising_on_ble_evt sd m (Some (BLE_GAP_EVT_CONNECTED h)))
        = Some BLE_ADV_MODE_IDLE"
  by (simp add: ble_advertising_on_ble_evt_def adv_set_configure_def obind_def
        call_adv_handler_def mode_after_def calls_after_def Let_def)

theorem advertising_mode_transitions_witness:
  "m_adv_mode example_adv = BLE_ADV_MODE_FAST
   \<and> adv_data_build example_sd example_adv = Returns example_adv_built
   \<and> sd_adv_set_configure_rc example_sd = NRF_SUCCESS
   \<and> sd_adv_start_rc example_sd = NRF_SUCCESS
   \<and> calls_after (ble_advertising_on_ble_evt example_sd example_adv
                    (Some (BLE_GAP_EVT_ADV_SET_TERMINATED 0x00)))
        = Some [(BLE_ADV_EVT_FAST_TIMEOUT, BLE_ADV_MODE_FAST)]
   \<and> mode_after (ble_advertising_on_ble_evt example_sd example_adv
                   (Some (BLE_GAP_EVT_ADV_SET_TERMINATED 0x00)))
        = Some BLE_ADV_MODE_SLOW
   \<and> m_adv_mode (example_adv\<lparr>m_adv_mode := BLE_ADV_MODE_SLOW\<rparr>) = BLE_ADV_MODE_SLOW
   \<and> mode_after (ble_advertising_on_ble_evt example_sd
                   (example_adv\<lparr>m_adv_mode := BLE_ADV_MODE_SLOW\<rparr>)
                   (Some (BLE_GAP_EVT_ADV_SET_TERMINATED 0x00)))
        = Some BLE_ADV_MODE_IDLE
   \<and> mode_after (ble_advertising_on_ble_evt example_sd example_adv
                   (Some (BLE_GAP_EVT_CONNECTED 0)))
        = Some BLE_ADV_MODE_IDLE"
  using advertising_mode_transitions
          [where m = example_adv and sd = example_sd and ?m1.0 = example_adv_built and h = 0]
        advertising_mode_transitions
          [where m = "example_adv\<lparr>m_adv_mode := BLE_ADV_MODE_SLOW\<rparr>" and sd = example_sd
             and ?m1.0 = example_adv_built and h = 0]
        example_adv_build
  by (simp add: example_adv_def example_sd_def NRF_SUCCESS_def)

end
